theory Spec2Isabelle
  imports Complex_Main "HOL-Library.Char_ord" "HOL-Library.List_Lexorder"
begin

section \<open>Tabular cells\<close>

text \<open>
  A cell of a table read by \<open>pandas.read_csv\<close>. \<open>Null\<close> is an empty cell (NaN),
  \<open>Num x\<close> a cell whose content \<open>pd.to_numeric\<close> reads as the number \<open>x\<close>, and
  \<open>Unparsable s\<close> a non-empty cell whose text \<open>pd.to_numeric\<close> cannot read.
  Text columns are \<open>string option\<close>, with \<open>None\<close> for NaN.
\<close>

datatype 'a cell = Null | Num 'a | Unparsable string

text \<open>\<open>pd.to_numeric(col, errors="coerce")\<close>, cell by cell.\<close>

fun to_numeric :: "'a cell \<Rightarrow> 'a cell" where
  "to_numeric (Unparsable s) = Null"
| "to_numeric c = c"

text \<open>\<open>Series.fillna(v)\<close>, cell by cell, on a numeric column.\<close>

fun fillna :: "'a \<Rightarrow> 'a cell \<Rightarrow> 'a" where
  "fillna v (Num x) = x"
| "fillna v c = v"

text \<open>
  Comparisons of a numeric column with a scalar: NaN compares false. They are applied
  after \<open>to_numeric\<close>, when no \<open>Unparsable\<close> cell is left.
\<close>

fun ge_cell :: "('a::linorder) cell \<Rightarrow> 'a \<Rightarrow> bool" where
  "ge_cell (Num x) v = (x \<ge> v)"
| "ge_cell c v = False"

fun le_cell :: "('a::linorder) cell \<Rightarrow> 'a \<Rightarrow> bool" where
  "le_cell (Num x) v = (x \<le> v)"
| "le_cell c v = False"

text \<open>\<open>Series.isin(values)\<close>, cell by cell, on a text column: NaN is in no list.\<close>

fun isin :: "string option \<Rightarrow> string list \<Rightarrow> bool" where
  "isin None vs = False"
| "isin (Some s) vs = (s \<in> set vs)"

section \<open>Quality filter: \<open>02_filter_gbif_dataset.py\<close>\<close>

text \<open>One row of \<open>occurrence.txt\<close>, restricted to \<open>COLUMNS_KEEP\<close>.\<close>

record occurrence =
  taxonKey :: "int cell"
  scientificName :: "string option"
  decimalLatitude :: "real cell"
  decimalLongitude :: "real cell"
  countryCode :: "string option"
  basisOfRecord :: "string option"
  coordinateUncertaintyInMeters :: "real cell"
  year :: "int cell"
  month :: "int cell"
  eventDate :: "string option"

definition ALLOWED_BASIS :: "string list" where
  "ALLOWED_BASIS = [''HUMAN_OBSERVATION'', ''MACHINE_OBSERVATION'', ''PRESERVED_SPECIMEN'']"

text \<open>The optional spatial and temporal filters; \<open>None\<close> is Python's \<open>None\<close>.\<close>

record config =
  LAT_MIN :: "real option"
  LAT_MAX :: "real option"
  LON_MIN :: "real option"
  LON_MAX :: "real option"
  YEAR_MIN :: "int option"
  YEAR_MAX :: "int option"

definition no_bounds :: config where
  "no_bounds = \<lparr>LAT_MIN = None, LAT_MAX = None, LON_MIN = None, LON_MAX = None,
                YEAR_MIN = None, YEAR_MAX = None\<rparr>"

subsection \<open>The steps on one chunk\<close>

text \<open>Step 1: \<open>chunk.dropna(subset=[...])\<close> on the four critical fields.\<close>

definition dropna_critical :: "occurrence list \<Rightarrow> occurrence list" where
  "dropna_critical chunk =
     filter (\<lambda>r. scientificName r \<noteq> None \<and> taxonKey r \<noteq> Null \<and>
                 decimalLatitude r \<noteq> Null \<and> decimalLongitude r \<noteq> Null) chunk"

text \<open>Step 2: the four columns converted with \<open>pd.to_numeric\<close>.\<close>

definition coerce_row :: "occurrence \<Rightarrow> occurrence" where
  "coerce_row r =
     r\<lparr>decimalLatitude := to_numeric (decimalLatitude r),
       decimalLongitude := to_numeric (decimalLongitude r),
       coordinateUncertaintyInMeters := to_numeric (coordinateUncertaintyInMeters r),
       year := to_numeric (year r)\<rparr>"

text \<open>Step 3: with a year filter active, rows without a numeric year are dropped.\<close>

definition year_filter_active :: "config \<Rightarrow> bool" where
  "year_filter_active cfg = (YEAR_MIN cfg \<noteq> None \<or> YEAR_MAX cfg \<noteq> None)"

definition dropna_year :: "config \<Rightarrow> occurrence list \<Rightarrow> occurrence list" where
  "dropna_year cfg chunk =
     (if year_filter_active cfg then filter (\<lambda>r. year r \<noteq> Null) chunk else chunk)"

text \<open>
  Step 4: the boolean mask, one entry per row of the chunk. \<open>series_and\<close> is
  \<open>mask &= s\<close> for two series over the same index; \<open>and_bound\<close> is the guarded
  \<open>if B is not None: mask &= ...\<close>.
\<close>

definition series_and :: "bool list \<Rightarrow> bool list \<Rightarrow> bool list" where
  "series_and m s = map (\<lambda>(a, b). a \<and> b) (zip m s)"

definition and_bound :: "('b \<Rightarrow> bool list) \<Rightarrow> 'b option \<Rightarrow> bool list \<Rightarrow> bool list" where
  "and_bound cmp b msk = (case b of None \<Rightarrow> msk | Some v \<Rightarrow> series_and msk (cmp v))"

definition spatial_filter_active :: "config \<Rightarrow> bool" where
  "spatial_filter_active cfg =
     (LAT_MIN cfg \<noteq> None \<or> LAT_MAX cfg \<noteq> None \<or> LON_MIN cfg \<noteq> None \<or> LON_MAX cfg \<noteq> None)"

definition spatial_mask :: "config \<Rightarrow> occurrence list \<Rightarrow> bool list \<Rightarrow> bool list" where
  "spatial_mask cfg chunk msk =
     (if spatial_filter_active cfg then
        and_bound (\<lambda>v. map (\<lambda>r. le_cell (decimalLongitude r) v) chunk) (LON_MAX cfg)
       (and_bound (\<lambda>v. map (\<lambda>r. ge_cell (decimalLongitude r) v) chunk) (LON_MIN cfg)
       (and_bound (\<lambda>v. map (\<lambda>r. le_cell (decimalLatitude r) v) chunk) (LAT_MAX cfg)
       (and_bound (\<lambda>v. map (\<lambda>r. ge_cell (decimalLatitude r) v) chunk) (LAT_MIN cfg) msk)))
      else msk)"

definition temporal_mask :: "config \<Rightarrow> occurrence list \<Rightarrow> bool list \<Rightarrow> bool list" where
  "temporal_mask cfg chunk msk =
     and_bound (\<lambda>v. map (\<lambda>r. le_cell (year r) v) chunk) (YEAR_MAX cfg)
    (and_bound (\<lambda>v. map (\<lambda>r. ge_cell (year r) v) chunk) (YEAR_MIN cfg) msk)"

definition build_mask :: "config \<Rightarrow> occurrence list \<Rightarrow> bool list" where
  "build_mask cfg chunk =
     (let mask0 = replicate (length chunk) True;
          mask1 = series_and mask0 (map (\<lambda>r. isin (basisOfRecord r) ALLOWED_BASIS) chunk);
          mask2 = series_and mask1
                    (map (\<lambda>r. fillna 0 (coordinateUncertaintyInMeters r) < 1000) chunk)
      in temporal_mask cfg chunk (spatial_mask cfg chunk mask2))"

text \<open>Step 5: \<open>chunk[mask]\<close>.\<close>

definition apply_mask :: "'a list \<Rightarrow> bool list \<Rightarrow> 'a list" where
  "apply_mask chunk msk = map fst (filter snd (zip chunk msk))"

definition filter_chunk :: "config \<Rightarrow> occurrence list \<Rightarrow> occurrence list" where
  "filter_chunk cfg chunk =
     (let chunk1 = dropna_critical chunk;
          chunk2 = map coerce_row chunk1;
          chunk3 = dropna_year cfg chunk2
      in apply_mask chunk3 (build_mask cfg chunk3))"

text \<open>The mask of a chunk, row by row: what \<open>build_mask\<close> computes for each row.\<close>

definition mask_pred :: "config \<Rightarrow> occurrence \<Rightarrow> bool" where
  "mask_pred cfg r =
     (isin (basisOfRecord r) ALLOWED_BASIS \<and>
      fillna 0 (coordinateUncertaintyInMeters r) < 1000 \<and>
      (case LAT_MIN cfg of None \<Rightarrow> True | Some v \<Rightarrow> ge_cell (decimalLatitude r) v) \<and>
      (case LAT_MAX cfg of None \<Rightarrow> True | Some v \<Rightarrow> le_cell (decimalLatitude r) v) \<and>
      (case LON_MIN cfg of None \<Rightarrow> True | Some v \<Rightarrow> ge_cell (decimalLongitude r) v) \<and>
      (case LON_MAX cfg of None \<Rightarrow> True | Some v \<Rightarrow> le_cell (decimalLongitude r) v) \<and>
      (case YEAR_MIN cfg of None \<Rightarrow> True | Some v \<Rightarrow> ge_cell (year r) v) \<and>
      (case YEAR_MAX cfg of None \<Rightarrow> True | Some v \<Rightarrow> le_cell (year r) v))"

subsection \<open>The predicates as the specification words them\<close>

text \<open>
  The mandatory predicates on a raw row: the four critical fields are not null, the basis
  of record is allowed, and the coordinate uncertainty, read as a number with null as
  zero, is strictly below 1000.
\<close>

definition mandatory_ok :: "occurrence \<Rightarrow> bool" where
  "mandatory_ok r =
     (scientificName r \<noteq> None \<and> taxonKey r \<noteq> Null \<and>
      decimalLatitude r \<noteq> Null \<and> decimalLongitude r \<noteq> Null \<and>
      isin (basisOfRecord r) ALLOWED_BASIS \<and>
      fillna 0 (to_numeric (coordinateUncertaintyInMeters r)) < 1000)"

text \<open>A configured lower or upper bound on a cell read as a number; an unset bound holds.\<close>

definition lower_ok :: "('a::linorder) option \<Rightarrow> 'a cell \<Rightarrow> bool" where
  "lower_ok b c = (case b of None \<Rightarrow> True | Some v \<Rightarrow> ge_cell (to_numeric c) v)"

definition upper_ok :: "('a::linorder) option \<Rightarrow> 'a cell \<Rightarrow> bool" where
  "upper_ok b c = (case b of None \<Rightarrow> True | Some v \<Rightarrow> le_cell (to_numeric c) v)"

definition optional_ok :: "config \<Rightarrow> occurrence \<Rightarrow> bool" where
  "optional_ok cfg r =
     (lower_ok (LAT_MIN cfg) (decimalLatitude r) \<and> upper_ok (LAT_MAX cfg) (decimalLatitude r) \<and>
      lower_ok (LON_MIN cfg) (decimalLongitude r) \<and> upper_ok (LON_MAX cfg) (decimalLongitude r) \<and>
      lower_ok (YEAR_MIN cfg) (year r) \<and> upper_ok (YEAR_MAX cfg) (year r))"

definition satisfies_all :: "config \<Rightarrow> occurrence \<Rightarrow> bool" where
  "satisfies_all cfg r = (mandatory_ok r \<and> optional_ok cfg r)"

text \<open>
  \<open>tightens cfg' cfg\<close>: every bound configured in \<open>cfg\<close> is configured in \<open>cfg'\<close>
  and is at least as strict there.
\<close>

definition tighter_lower :: "('a::linorder) option \<Rightarrow> 'a option \<Rightarrow> bool" where
  "tighter_lower b' b =
     (case b of None \<Rightarrow> True | Some v \<Rightarrow> (case b' of None \<Rightarrow> False | Some v' \<Rightarrow> v \<le> v'))"

definition tighter_upper :: "('a::linorder) option \<Rightarrow> 'a option \<Rightarrow> bool" where
  "tighter_upper b' b =
     (case b of None \<Rightarrow> True | Some v \<Rightarrow> (case b' of None \<Rightarrow> False | Some v' \<Rightarrow> v' \<le> v))"

definition tightens :: "config \<Rightarrow> config \<Rightarrow> bool" where
  "tightens cfg' cfg =
     (tighter_lower (LAT_MIN cfg') (LAT_MIN cfg) \<and> tighter_upper (LAT_MAX cfg') (LAT_MAX cfg) \<and>
      tighter_lower (LON_MIN cfg') (LON_MIN cfg) \<and> tighter_upper (LON_MAX cfg') (LON_MAX cfg) \<and>
      tighter_lower (YEAR_MIN cfg') (YEAR_MIN cfg) \<and> tighter_upper (YEAR_MAX cfg') (YEAR_MAX cfg))"

subsection \<open>Counters and the loop over the chunks\<close>

text \<open>
  A \<open>collections.Counter\<close>: keys in insertion order, each with its count.
  \<open>counter_update c xs\<close> is \<open>c.update(xs)\<close>, which adds one per element of \<open>xs\<close>.
\<close>

type_synonym 'k counter = "('k \<times> nat) list"

fun counter_incr :: "'k \<Rightarrow> 'k counter \<Rightarrow> 'k counter" where
  "counter_incr k [] = [(k, 1)]"
| "counter_incr k ((k', n) # c) =
     (if k' = k then (k', n + 1) # c else (k', n) # counter_incr k c)"

definition counter_update :: "'k counter \<Rightarrow> 'k list \<Rightarrow> 'k counter" where
  "counter_update c xs = fold counter_incr xs c"

definition counter_keys :: "'k counter \<Rightarrow> 'k list" where
  "counter_keys c = map fst c"

definition counter_values :: "'k counter \<Rightarrow> nat list" where
  "counter_values c = map snd c"

text \<open>\<open>Series.dropna()\<close> on a text column and on a numeric column.\<close>

definition dropna_text :: "string option list \<Rightarrow> string option list" where
  "dropna_text col = filter (\<lambda>v. v \<noteq> None) col"

definition dropna_num :: "'a cell list \<Rightarrow> 'a cell list" where
  "dropna_num col = filter (\<lambda>v. v \<noteq> Null) col"

text \<open>The module-level state the loop updates.\<close>

record run_state =
  species_counter :: "string option counter"
  taxon_counter :: "int cell counter"
  country_counter :: "string option counter"
  basis_counter :: "string option counter"
  year_counter :: "int cell counter"
  total_records :: nat
  filtered_records :: nat
  filtered_data :: "occurrence list list"

definition initial_state :: run_state where
  "initial_state =
     \<lparr>species_counter = [], taxon_counter = [], country_counter = [], basis_counter = [],
      year_counter = [], total_records = 0, filtered_records = 0, filtered_data = []\<rparr>"

text \<open>Step 6: the counters, updated only when the filtered chunk is not empty.\<close>

definition update_counters :: "occurrence list \<Rightarrow> run_state \<Rightarrow> run_state" where
  "update_counters filtered_chunk st =
     (if filtered_chunk \<noteq> [] then
        st\<lparr>species_counter :=
             counter_update (species_counter st) (map scientificName filtered_chunk),
           taxon_counter :=
             counter_update (taxon_counter st) (map taxonKey filtered_chunk),
           country_counter :=
             counter_update (country_counter st) (dropna_text (map countryCode filtered_chunk)),
           basis_counter :=
             counter_update (basis_counter st) (dropna_text (map basisOfRecord filtered_chunk)),
           year_counter :=
             counter_update (year_counter st) (dropna_num (map year filtered_chunk))\<rparr>
      else st)"

text \<open>The body of the loop, for one chunk; step 7 appends every filtered chunk.\<close>

definition process_chunk :: "config \<Rightarrow> run_state \<Rightarrow> occurrence list \<Rightarrow> run_state" where
  "process_chunk cfg st chunk =
     (let st1 = st\<lparr>total_records := total_records st + length chunk\<rparr>;
          filtered_chunk = filter_chunk cfg chunk;
          st2 = update_counters filtered_chunk st1
      in st2\<lparr>filtered_records := filtered_records st2 + length filtered_chunk,
             filtered_data := filtered_data st2 @ [filtered_chunk]\<rparr>)"

definition process_chunks :: "config \<Rightarrow> occurrence list list \<Rightarrow> run_state" where
  "process_chunks cfg chunks = foldl (process_chunk cfg) initial_state chunks"

subsection \<open>Writing the filtered table and the report\<close>

datatype py_error =
  NameError string | KeyError "string list" | SysExit string | ValueError string | OverflowError

text \<open>
  \<open>if filtered_data: ... else: print(...)\<close>. The result is the value bound to
  \<open>filtered_df\<close>, which is also the table written to \<open>FILTERED_FILE\<close> (\<open>None\<close>:
  the name is unbound and no file is written), with the lines printed.
\<close>

definition persist :: "occurrence list list \<Rightarrow> occurrence list option \<times> string list" where
  "persist fdata =
     (if fdata \<noteq> [] then (Some (concat fdata), [])
      else (None, [''No data after filtering.'']))"

text \<open>The statistics of the report that are read from the counters and the table.\<close>

record report =
  rep_total_records :: nat
  rep_filtered_records :: nat
  rep_unique_species :: nat
  rep_unique_taxonKeys :: nat
  rep_years :: "int cell list"
  rep_n_countries :: nat
  rep_total_basis :: nat

text \<open>
  The report reads \<open>filtered_df.columns\<close>: with \<open>filtered_df\<close> unbound, Python raises
  NameError there.
\<close>

definition write_report :: "run_state \<Rightarrow> occurrence list option \<Rightarrow> py_error + report" where
  "write_report st filtered_df =
     (case filtered_df of
        None \<Rightarrow> Inl (NameError ''filtered_df'')
      | Some df \<Rightarrow>
          Inr \<lparr>rep_total_records = total_records st,
               rep_filtered_records = filtered_records st,
               rep_unique_species = length (species_counter st),
               rep_unique_taxonKeys = length (taxon_counter st),
               rep_years = dropna_num (map year df),
               rep_n_countries = length (country_counter st),
               rep_total_basis = sum_list (counter_values (basis_counter st))\<rparr>)"

text \<open>What a run leaves behind.\<close>

record outcome =
  filtered_file :: "occurrence list option"
  stdout :: "string list"
  result :: "py_error + report"

definition run_filter :: "config \<Rightarrow> occurrence list list \<Rightarrow> outcome" where
  "run_filter cfg chunks =
     (let st = process_chunks cfg chunks;
          (filtered_df, printed) = persist (filtered_data st);
          rep = write_report st filtered_df
      in \<lparr>filtered_file = filtered_df,
          stdout = printed @ (case rep of Inl e \<Rightarrow> []
                              | Inr r \<Rightarrow> [''Report saved to'', ''Filtered dataset saved to'']),
          result = rep\<rparr>)"

subsection \<open>Example rows\<close>

definition row_A :: occurrence where
  "row_A = \<lparr>taxonKey = Num 2480528, scientificName = Some ''Aquila chrysaetos'',
            decimalLatitude = Num 40.5, decimalLongitude = Num 22.9,
            countryCode = Some ''GR'', basisOfRecord = Some ''HUMAN_OBSERVATION'',
            coordinateUncertaintyInMeters = Null, year = Num 2001, month = Num 5,
            eventDate = Some ''2001-05-12''\<rparr>"

definition row_B :: occurrence where
  "row_B = row_A\<lparr>coordinateUncertaintyInMeters := Num 1500, year := Num 2003\<rparr>"

definition row_C :: occurrence where
  "row_C = row_A\<lparr>basisOfRecord := Some ''FOSSIL_SPECIMEN'', year := Unparsable ''n/a''\<rparr>"

definition row_D :: occurrence where
  "row_D = row_A\<lparr>decimalLatitude := Num 36.1, coordinateUncertaintyInMeters := Num 250,
                 countryCode := None, year := Null\<rparr>"

definition box_wide :: config where
  "box_wide = no_bounds\<lparr>LAT_MIN := Some 34, LAT_MAX := Some 42\<rparr>"

definition box_narrow :: config where
  "box_narrow = no_bounds\<lparr>LAT_MIN := Some 38, LAT_MAX := Some 42, YEAR_MIN := Some 1990\<rparr>"

text \<open>The invariant of the loop over the chunks that the counters keep.\<close>

definition counters_consistent :: "run_state \<Rightarrow> bool" where
  "counters_consistent st =
     (sum_list (counter_values (basis_counter st)) = filtered_records st \<and>
      filtered_records st = length (concat (filtered_data st)) \<and>
      set (counter_keys (species_counter st)) \<subseteq> scientificName ` set (concat (filtered_data st)) \<and>
      set (counter_keys (taxon_counter st)) \<subseteq> taxonKey ` set (concat (filtered_data st)) \<and>
      set (counter_keys (country_counter st)) \<subseteq> countryCode ` set (concat (filtered_data st)) \<and>
      set (counter_keys (basis_counter st)) \<subseteq> basisOfRecord ` set (concat (filtered_data st)) \<and>
      set (counter_keys (year_counter st)) \<subseteq> year ` set (concat (filtered_data st)))"

section \<open>Machine integers\<close>

text \<open>
  The int64 result of an operation or conversion whose exact result is \<open>x\<close>: numpy
  wraps around in two's complement and raises nothing.
\<close>

definition wrap64 :: "int \<Rightarrow> int" where
  "wrap64 x = (x + 2 ^ 63) mod 2 ^ 64 - 2 ^ 63"

section \<open>Acquisition: the taxon keys of \<open>01_download_gbif.py\<close>\<close>

text \<open>
  A value held in a column of object dtype: NaN, a Python int, a float or a text.
\<close>

datatype pyval = PNaN | PInt int | PFloat real | PStr string

text \<open>
  A column of the species list as \<open>pd.read_csv\<close> returns it: int64 values; uint64
  values, when the file has a whole number from \<open>2^63\<close> on; float64 values, with
  \<open>None\<close> for NaN; or Python objects, when the file has a text in the column.
\<close>

datatype series =
  IntSeries "int list" | UIntSeries "int list" | FloatSeries "real option list"
  | ObjectSeries "pyval list"

record species_df =
  usageKey :: series
  acceptedUsageKey :: series

text \<open>
  What Python reads of a text: whether \<open>pd.to_numeric\<close> reads it as a number, and
  the value that \<open>int(text)\<close> gives, if any. Both are library functions and are taken
  as parameters.
\<close>

record readers =
  numeric_text :: "string \<Rightarrow> bool"
  int_literal :: "string \<Rightarrow> int option"

text \<open>
  The float64 nearest to an int64 or uint64 value, ties to the even significand: what
  such a value becomes when it is put into a float64 column. Values below \<open>2^53\<close>
  in magnitude are kept.
\<close>

definition float_of_int64 :: "int \<Rightarrow> real" where
  "float_of_int64 k =
     (let a = \<bar>k\<bar>;
          e = length (filter (\<lambda>i. 2 ^ (53 + i) \<le> a) [0..<11]);
          ulp = 2 ^ e;
          q = a div ulp;
          r = a mod ulp;
          q' = (if ulp < 2 * r \<or> (2 * r = ulp \<and> odd q) then q + 1 else q)
      in of_int (sgn k * (q' * ulp)))"

text \<open>
  \<open>a.fillna(b)\<close> for two columns of one table: only a NaN of \<open>a\<close> is replaced. A
  column of whole numbers has no NaN and stays as it is; a float64 column takes
  numbers as float64 and becomes an object column when it has to take values of one;
  an object column takes the values as they are.
\<close>

fun fillna_series :: "series \<Rightarrow> series \<Rightarrow> series" where
  "fillna_series (IntSeries a) b = IntSeries a"
| "fillna_series (UIntSeries a) b = UIntSeries a"
| "fillna_series (FloatSeries a) (IntSeries b) =
     FloatSeries (map (\<lambda>(x, y). case x of None \<Rightarrow> Some (float_of_int64 y) | Some v \<Rightarrow> Some v)
                    (zip a b))"
| "fillna_series (FloatSeries a) (UIntSeries b) =
     FloatSeries (map (\<lambda>(x, y). case x of None \<Rightarrow> Some (float_of_int64 y) | Some v \<Rightarrow> Some v)
                    (zip a b))"
| "fillna_series (FloatSeries a) (FloatSeries b) =
     FloatSeries (map (\<lambda>(x, y). case x of None \<Rightarrow> y | Some v \<Rightarrow> Some v) (zip a b))"
| "fillna_series (FloatSeries a) (ObjectSeries b) =
     (if None \<in> set a
      then ObjectSeries (map (\<lambda>(x, y). case x of None \<Rightarrow> y | Some v \<Rightarrow> PFloat v) (zip a b))
      else FloatSeries a)"
| "fillna_series (ObjectSeries a) (IntSeries b) =
     ObjectSeries (map (\<lambda>(x, y). if x = PNaN then PInt y else x) (zip a b))"
| "fillna_series (ObjectSeries a) (UIntSeries b) =
     ObjectSeries (map (\<lambda>(x, y). if x = PNaN then PInt y else x) (zip a b))"
| "fillna_series (ObjectSeries a) (FloatSeries b) =
     ObjectSeries (map (\<lambda>(x, y). if x = PNaN then (case y of None \<Rightarrow> PNaN | Some v \<Rightarrow> PFloat v)
                                   else x) (zip a b))"
| "fillna_series (ObjectSeries a) (ObjectSeries b) =
     ObjectSeries (map (\<lambda>(x, y). if x = PNaN then y else x) (zip a b))"

text \<open>
  \<open>pd.to_numeric(col, errors="coerce").notnull()\<close>: the rows whose key reads as a
  number.
\<close>

fun reads_numeric :: "readers \<Rightarrow> pyval \<Rightarrow> bool" where
  "reads_numeric rd PNaN = False"
| "reads_numeric rd (PInt k) = True"
| "reads_numeric rd (PFloat x) = True"
| "reads_numeric rd (PStr s) = numeric_text rd s"

fun notnull_numeric :: "readers \<Rightarrow> series \<Rightarrow> bool list" where
  "notnull_numeric rd (IntSeries a) = map (\<lambda>k. True) a"
| "notnull_numeric rd (UIntSeries a) = map (\<lambda>k. True) a"
| "notnull_numeric rd (FloatSeries a) = map (\<lambda>v. v \<noteq> None) a"
| "notnull_numeric rd (ObjectSeries a) = map (reads_numeric rd) a"

text \<open>\<open>col[mask]\<close>: the dtype stays.\<close>

fun select_rows :: "bool list \<Rightarrow> series \<Rightarrow> series" where
  "select_rows m (IntSeries a) = IntSeries (apply_mask a m)"
| "select_rows m (UIntSeries a) = UIntSeries (apply_mask a m)"
| "select_rows m (FloatSeries a) = FloatSeries (apply_mask a m)"
| "select_rows m (ObjectSeries a) = ObjectSeries (apply_mask a m)"

text \<open>
  \<open>astype(int)\<close>, which is applied to the column itself, not to what
  \<open>pd.to_numeric\<close> made of it. A uint64 value wraps around into int64. A float64
  value is truncated towards zero, and gives
  the least int64 when the result does not fit (as the conversion does on x86-64); a
  NaN raises. In an object column every value goes through \<open>int(...)\<close>, which raises
  ValueError on NaN and on a text that is no integer literal, and the result has to
  fit int64.
\<close>

definition in_int64 :: "int \<Rightarrow> bool" where
  "in_int64 k = (- (2 ^ 63) \<le> k \<and> k < 2 ^ 63)"

definition py_trunc :: "real \<Rightarrow> int" where
  "py_trunc x = (if 0 \<le> x then \<lfloor>x\<rfloor> else \<lceil>x\<rceil>)"

definition int_of_float64 :: "real option \<Rightarrow> py_error + int" where
  "int_of_float64 v =
     (case v of
        None \<Rightarrow> Inl (ValueError ''Cannot convert non-finite values (NA or inf) to integer'')
      | Some x \<Rightarrow> Inr (if in_int64 (py_trunc x) then py_trunc x else - (2 ^ 63)))"

definition fit_int64 :: "int \<Rightarrow> py_error + int" where
  "fit_int64 k = (if in_int64 k then Inr k else Inl OverflowError)"

fun int_of_object :: "readers \<Rightarrow> pyval \<Rightarrow> py_error + int" where
  "int_of_object rd PNaN = Inl (ValueError ''cannot convert float NaN to integer'')"
| "int_of_object rd (PInt k) = fit_int64 k"
| "int_of_object rd (PFloat x) = fit_int64 (py_trunc x)"
| "int_of_object rd (PStr s) =
     (case int_literal rd s of None \<Rightarrow> Inl (ValueError s) | Some k \<Rightarrow> fit_int64 k)"

text \<open>The results of the conversions of a column, or the first error that is raised.\<close>

fun collect :: "('e + 'a) list \<Rightarrow> 'e + 'a list" where
  "collect [] = Inr []"
| "collect (Inl e # rs) = Inl e"
| "collect (Inr x # rs) = (case collect rs of Inl e \<Rightarrow> Inl e | Inr xs \<Rightarrow> Inr (x # xs))"

fun astype_int :: "readers \<Rightarrow> series \<Rightarrow> py_error + int list" where
  "astype_int rd (IntSeries a) = Inr a"
| "astype_int rd (UIntSeries a) = Inr (map wrap64 a)"
| "astype_int rd (FloatSeries a) = collect (map int_of_float64 a)"
| "astype_int rd (ObjectSeries a) = collect (map (int_of_object rd) a)"

text \<open>\<open>Series.unique()\<close>: the distinct values in the order of their first appearance.\<close>

definition unique :: "'a list \<Rightarrow> 'a list" where
  "unique xs = rev (remdups (rev xs))"

text \<open>Lines 117 to 121.\<close>

definition usage_keys :: "readers \<Rightarrow> species_df \<Rightarrow> py_error + int list" where
  "usage_keys rd df =
     (let key_to_use = fillna_series (acceptedUsageKey df) (usageKey df);
          kept = select_rows (notnull_numeric rd key_to_use) key_to_use
      in case astype_int rd kept of Inl e \<Rightarrow> Inl e | Inr ks \<Rightarrow> Inr (unique ks))"

text \<open>\<open>if not usage_keys: sys.exit(...)\<close>.\<close>

definition load_taxon_keys :: "readers \<Rightarrow> species_df \<Rightarrow> py_error + int list" where
  "load_taxon_keys rd df =
     (case usage_keys rd df of
        Inl e \<Rightarrow> Inl e
      | Inr ks \<Rightarrow>
          if ks = [] then Inl (SysExit ''No valid taxon keys found. Check your CSV file columns.'')
          else Inr ks)"

subsection \<open>The keys as the specification words them\<close>

text \<open>The values of a column, row by row, as Python objects.\<close>

fun cells :: "series \<Rightarrow> pyval list" where
  "cells (IntSeries a) = map PInt a"
| "cells (UIntSeries a) = map PInt a"
| "cells (FloatSeries a) = map (\<lambda>v. case v of None \<Rightarrow> PNaN | Some x \<Rightarrow> PFloat x) a"
| "cells (ObjectSeries a) = a"

text \<open>The preferred key of a row, or the fallback when the preferred key is null.\<close>

definition preferred :: "pyval \<times> pyval \<Rightarrow> pyval" where
  "preferred au = (case au of (accepted, usage) \<Rightarrow> if accepted = PNaN then usage else accepted)"

text \<open>
  The taxon key that a value stands for: none for a missing value and for a text that
  is not numeric.
\<close>

fun key_of :: "readers \<Rightarrow> pyval \<Rightarrow> int option" where
  "key_of rd PNaN = None"
| "key_of rd (PInt k) = Some k"
| "key_of rd (PFloat x) = Some (py_trunc x)"
| "key_of rd (PStr s) = (if numeric_text rd s then int_literal rd s else None)"

text \<open>
  A value that the conversions take over exactly: a whole number below \<open>2^53\<close> in
  magnitude, as an int, as a float or as a numeric text that is an integer literal; or
  a missing value, or a text that is not numeric.
\<close>

definition small :: "int \<Rightarrow> bool" where
  "small k = (\<bar>k\<bar> < 2 ^ 53)"

fun exact_key :: "readers \<Rightarrow> pyval \<Rightarrow> bool" where
  "exact_key rd PNaN = True"
| "exact_key rd (PInt k) = small k"
| "exact_key rd (PFloat x) = (x = of_int (py_trunc x) \<and> small (py_trunc x))"
| "exact_key rd (PStr s) =
     (if numeric_text rd s then (case int_literal rd s of None \<Rightarrow> False | Some k \<Rightarrow> small k)
      else True)"

definition exact_keys :: "readers \<Rightarrow> species_df \<Rightarrow> bool" where
  "exact_keys rd df =
     (length (cells (usageKey df)) = length (cells (acceptedUsageKey df)) \<and>
      list_all (exact_key rd) (cells (usageKey df)) \<and>
      list_all (exact_key rd) (cells (acceptedUsageKey df)))"

text \<open>
  A filled value and the preferred value of its row stand for the same key, where the
  values are exact.
\<close>

definition same_key :: "readers \<Rightarrow> pyval \<Rightarrow> pyval \<Rightarrow> bool" where
  "same_key rd v w =
     (key_of rd v = key_of rd w \<and> reads_numeric rd v = reads_numeric rd w \<and> exact_key rd v)"


section \<open>Spatial enrichment: the join of \<open>03_spatial_join_gbif_natura.py\<close>\<close>

text \<open>The attributes of a site that the join carries over.\<close>

record site =
  site_SITECODE :: "string option"
  site_SITENAME :: "string option"
  site_COUNTRY :: "string option"
  site_SITETYPE :: "string option"

text \<open>
  Modelled from the spec: \<open>geopandas.sjoin(points, polygons, how="left",
  predicate="within")\<close>, a library function whose code is not among the sources. The
  specification describes it as a left join on the points under point-in-polygon
  containment: a point in no polygon is kept once with null site attributes, a point
  in several polygons gives one row per polygon. The containment test \<open>within\<close> and
  the geometries are parameters. A row of the result is the index and the row of the
  point, then the position of the matched polygon (\<open>index_right\<close>) and its
  attributes, both null when nothing matched.
\<close>

definition matches :: "('p \<Rightarrow> 'g \<Rightarrow> bool) \<Rightarrow> 'p \<Rightarrow> ('s \<times> 'g) list \<Rightarrow> (nat \<times> 's) list" where
  "matches within_p pt polygons =
     map (\<lambda>(j, (s, g)). (j, s)) (filter (\<lambda>(j, (s, g)). within_p pt g) (enumerate 0 polygons))"

text \<open>
  Modelled from the spec: the rows one point contributes to the left join, one per
  polygon that contains it, or a single row with nulls when none does.
\<close>

definition join_point :: "('p \<Rightarrow> 'g \<Rightarrow> bool) \<Rightarrow> ('s \<times> 'g) list \<Rightarrow> nat \<times> 'a \<times> 'p
    \<Rightarrow> (nat \<times> 'a \<times> (nat \<times> 's) option) list" where
  "join_point within_p polygons ip =
     (case ip of (i, (a, pt)) \<Rightarrow>
        (case matches within_p pt polygons of
           [] \<Rightarrow> [(i, a, None)]
         | m # ms \<Rightarrow> map (\<lambda>m. (i, a, Some m)) (m # ms)))"

text \<open>
  Modelled from the spec: the joined table, the rows of the points in the order of the
  points, each point under its index in the input.
\<close>

definition sjoin_left :: "('p \<Rightarrow> 'g \<Rightarrow> bool) \<Rightarrow> ('a \<times> 'p) list \<Rightarrow> ('s \<times> 'g) list
    \<Rightarrow> (nat \<times> 'a \<times> (nat \<times> 's) option) list" where
  "sjoin_left within_p points polygons =
     concat (map (join_point within_p polygons) (enumerate 0 points))"

text \<open>The rows of a joined table that carry the index \<open>i\<close> of a point.\<close>

definition rows_of :: "nat \<Rightarrow> (nat \<times> 'b) list \<Rightarrow> (nat \<times> 'b) list" where
  "rows_of i joined = filter (\<lambda>r. fst r = i) joined"

section \<open>Metrics: \<open>04_basic_metrics_gbif_natura.py\<close> and \<open>05_advanced_metrics_gbif_natura.py\<close>\<close>

text \<open>
  The joined table as both scripts read it back from the GeoPackage: a list of column
  names and the rows, each column typed, with \<open>None\<close> for a null. A field whose column
  is not in \<open>columns\<close> is never read. Years are whole numbers.
\<close>

record joined_row =
  j_taxonKey :: "int option"
  j_scientificName :: "string option"
  j_year :: "int option"
  SITECODE :: "string option"
  SITENAME :: "string option"
  MS :: "string option"
  SITETYPE :: "string option"

record frame =
  columns :: "string list"
  rows :: "joined_row list"

definition SITE_CODE_COL :: string where "SITE_CODE_COL = ''SITECODE''"
definition SITE_NAME_COL :: string where "SITE_NAME_COL = ''SITENAME''"
definition MS_COL :: string where "MS_COL = ''MS''"
definition SITETYPE_COL :: string where "SITETYPE_COL = ''SITETYPE''"
definition SPECIES_COL :: string where "SPECIES_COL = ''scientificName''"
definition YEAR_COL :: string where "YEAR_COL = ''year''"
definition TAXON_KEY_COL :: string where "TAXON_KEY_COL = ''taxonKey''"

definition has_year :: "frame \<Rightarrow> bool" where
  "has_year df = (YEAR_COL \<in> set (columns df))"

text \<open>
  \<open>df_in_site\<close>: the rows with a site code, or no row at all when the table has no
  site code column. The columns stay those of \<open>df\<close>.
\<close>

definition in_site :: "frame \<Rightarrow> joined_row list" where
  "in_site df =
     (if SITE_CODE_COL \<in> set (columns df) then filter (\<lambda>r. SITECODE r \<noteq> None) (rows df)
      else [])"

subsection \<open>Group-by and the aggregations\<close>

fun dropna :: "'a option list \<Rightarrow> 'a list" where
  "dropna [] = []"
| "dropna (None # xs) = dropna xs"
| "dropna (Some x # xs) = x # dropna xs"

text \<open>
  \<open>df.groupby(key, dropna=True)\<close>: one group per distinct non-null key, the keys
  sorted, the rows of a group in their order in the table.
\<close>

definition groupby :: "('r \<Rightarrow> ('k::linorder) option) \<Rightarrow> 'r list \<Rightarrow> ('k \<times> 'r list) list" where
  "groupby key df =
     map (\<lambda>k. (k, filter (\<lambda>r. key r = Some k) df)) (sort (remdups (dropna (map key df))))"

text \<open>\<open>"first"\<close>, \<open>"size"\<close>, \<open>"nunique"\<close>, \<open>"min"\<close> and \<open>"max"\<close>; all but \<open>size\<close> skip nulls.\<close>

definition agg_first :: "'a option list \<Rightarrow> 'a option" where
  "agg_first col = (case dropna col of [] \<Rightarrow> None | x # xs \<Rightarrow> Some x)"

definition agg_size :: "'a list \<Rightarrow> nat" where
  "agg_size col = length col"

definition agg_nunique :: "'a option list \<Rightarrow> nat" where
  "agg_nunique col = length (remdups (dropna col))"

definition agg_min :: "int option list \<Rightarrow> int option" where
  "agg_min col = (case dropna col of [] \<Rightarrow> None | x # xs \<Rightarrow> Some (fold min xs x))"

definition agg_max :: "int option list \<Rightarrow> int option" where
  "agg_max col = (case dropna col of [] \<Rightarrow> None | x # xs \<Rightarrow> Some (fold max xs x))"

text \<open>The three year columns every aggregation adds when the table has a year column.\<close>

record year_stats =
  year_min :: "int option"
  year_max :: "int option"
  n_years :: nat

definition year_agg :: "joined_row list \<Rightarrow> year_stats" where
  "year_agg grp =
     \<lparr>year_min = agg_min (map j_year grp), year_max = agg_max (map j_year grp),
      n_years = agg_nunique (map j_year grp)\<rparr>"

text \<open>Aggregating over a column that the table does not have raises KeyError.\<close>

definition missing_columns :: "string list \<Rightarrow> string list \<Rightarrow> string list" where
  "missing_columns cols needed = filter (\<lambda>c. c \<notin> set cols) needed"

datatype exit_kind = Completed | SystemExit int | Raised py_error

fun exit_status :: "exit_kind \<Rightarrow> int" where
  "exit_status Completed = 0"
| "exit_status (SystemExit n) = n"
| "exit_status (Raised e) = 1"

subsection \<open>Basic metrics\<close>

record site_metric =
  bs_SITECODE :: string
  bs_site_name :: "string option"
  bs_ms :: "string option"
  bs_site_type :: "string option"
  bs_n_occurrences :: nat
  bs_n_species :: nat
  bs_years :: "year_stats option"

record ms_metric =
  bm_MS :: string
  bm_n_occurrences :: nat
  bm_n_sites :: nat
  bm_n_species :: nat
  bm_years :: "year_stats option"

definition site_metric_of :: "bool \<Rightarrow> string \<times> joined_row list \<Rightarrow> site_metric" where
  "site_metric_of with_year kg =
     (case kg of (k, grp) \<Rightarrow>
        \<lparr>bs_SITECODE = k,
         bs_site_name = agg_first (map SITENAME grp),
         bs_ms = agg_first (map MS grp),
         bs_site_type = agg_first (map SITETYPE grp),
         bs_n_occurrences = agg_size (map j_taxonKey grp),
         bs_n_species = agg_nunique (map j_scientificName grp),
         bs_years = (if with_year then Some (year_agg grp) else None)\<rparr>)"

definition sites_metrics :: "frame \<Rightarrow> joined_row list \<Rightarrow> py_error + site_metric list" where
  "sites_metrics df df_in_site =
     (case missing_columns (columns df)
             [SITE_CODE_COL, SITE_NAME_COL, MS_COL, SITETYPE_COL, TAXON_KEY_COL, SPECIES_COL] of
        [] \<Rightarrow> Inr (map (site_metric_of (has_year df)) (groupby SITECODE df_in_site))
      | c # cs \<Rightarrow> Inl (KeyError (c # cs)))"

definition ms_metric_of :: "bool \<Rightarrow> string \<times> joined_row list \<Rightarrow> ms_metric" where
  "ms_metric_of with_year kg =
     (case kg of (k, grp) \<Rightarrow>
        \<lparr>bm_MS = k,
         bm_n_occurrences = agg_size (map j_taxonKey grp),
         bm_n_sites = agg_nunique (map SITECODE grp),
         bm_n_species = agg_nunique (map j_scientificName grp),
         bm_years = (if with_year then Some (year_agg grp) else None)\<rparr>)"

definition ms_metrics :: "frame \<Rightarrow> joined_row list \<Rightarrow> py_error + ms_metric list option" where
  "ms_metrics df df_in_site =
     (if MS_COL \<in> set (columns df) then
        (case missing_columns (columns df) [TAXON_KEY_COL, SITE_CODE_COL, SPECIES_COL] of
           [] \<Rightarrow> Inr (Some (map (ms_metric_of (has_year df)) (groupby MS df_in_site)))
         | c # cs \<Rightarrow> Inl (KeyError (c # cs)))
      else Inr None)"

text \<open>The files a run of the basic metrics writes (\<open>None\<close>: not written) and how it ends.\<close>

record basic_outputs =
  sites_metrics_csv :: "site_metric list option"
  ms_metrics_csv :: "ms_metric list option"
  basic_exit :: exit_kind

definition basic_metrics :: "frame \<Rightarrow> basic_outputs" where
  "basic_metrics df =
     (let df_in_site = in_site df in
      if df_in_site = [] then
        \<lparr>sites_metrics_csv = None, ms_metrics_csv = None, basic_exit = SystemExit 0\<rparr>
      else
        (case sites_metrics df df_in_site of
           Inl e \<Rightarrow> \<lparr>sites_metrics_csv = None, ms_metrics_csv = None, basic_exit = Raised e\<rparr>
         | Inr sm \<Rightarrow>
             (case ms_metrics df df_in_site of
                Inl e \<Rightarrow>
                  \<lparr>sites_metrics_csv = Some sm, ms_metrics_csv = None, basic_exit = Raised e\<rparr>
              | Inr mm \<Rightarrow>
                  \<lparr>sites_metrics_csv = Some sm, ms_metrics_csv = mm, basic_exit = Completed\<rparr>)))"

subsection \<open>Advanced metrics: species, site types and temporal gaps\<close>

text \<open>
  The aggregated year columns are int64, as pandas holds a year column without nulls
  and the counts of \<open>nunique\<close>: the sum or difference of two of them is the int64
  result, wrapped around (\<open>wrap64\<close>). (A year column with nulls is float64, whose
  arithmetic agrees with this on whole numbers below \<open>2^53\<close>.)
\<close>

text \<open>
  A float64 value: a real number, an infinity or NaN. The rounding of a quotient to the
  nearest double is not modelled.
\<close>

datatype float64 = Finite real | PosInf | NegInf | NotANumber

text \<open>
  \<open>a / b\<close> for two int64 columns, which is float64 true division: a zero divisor
  gives an infinity, or NaN for \<open>0 / 0\<close>.
\<close>

definition true_divide :: "int \<Rightarrow> int \<Rightarrow> float64" where
  "true_divide a b =
     (if b = 0 then (if 0 < a then PosInf else if a < 0 then NegInf else NotANumber)
      else Finite (real_of_int a / real_of_int b))"

text \<open>\<open>year_max - year_min\<close>: null when the group has no year.\<close>

definition span_of :: "int option \<Rightarrow> int option \<Rightarrow> int option" where
  "span_of hi lo =
     (case hi of None \<Rightarrow> None
      | Some h \<Rightarrow> (case lo of None \<Rightarrow> None | Some l \<Rightarrow> Some (wrap64 (h - l))))"

text \<open>\<open>temporal_span.replace(0, pd.NA)\<close>.\<close>

definition replace_zero :: "int option \<Rightarrow> int option" where
  "replace_zero s = (if s = Some 0 then None else s)"

record species_temporal = year_stats +
  temporal_span :: "int option"
  temporal_completeness :: "float64 option"

text \<open>
  The row of a taxon after lines 252 to 259: \<open>temporal_span\<close> is set, and
  \<open>temporal_completeness\<close> holds the general formula \<open>n_years / (span + 1)\<close> on the
  span with its zeros replaced by NA, which is NA where the span is NA.
\<close>

definition general_division :: "year_stats \<Rightarrow> species_temporal" where
  "general_division ys =
     (let tspan = span_of (year_max ys) (year_min ys);
          sp = replace_zero tspan
      in \<lparr>year_min = year_min ys, year_max = year_max ys, n_years = n_years ys,
          temporal_span = tspan,
          temporal_completeness =
            (case sp of None \<Rightarrow> None
             | Some s \<Rightarrow> Some (true_divide (int (n_years ys)) (wrap64 (s + 1))))\<rparr>)"

text \<open>
  The assignment \<open>loc[temporal_span == 0, "temporal_completeness"] = 1.0\<close> of lines
  261 to 263, on one row.
\<close>

definition force_single_year :: "species_temporal \<Rightarrow> species_temporal" where
  "force_single_year t =
     (if temporal_span t = Some 0 then t\<lparr>temporal_completeness := Some (Finite 1)\<rparr> else t)"

record species_metric =
  sp_taxonKey :: int
  sp_scientificName :: "string option"
  sp_n_occurrences_natura :: nat
  sp_n_sites :: nat
  sp_n_ms :: nat
  sp_temporal :: "species_temporal option"

definition species_metric_of :: "bool \<Rightarrow> int \<times> joined_row list \<Rightarrow> species_metric" where
  "species_metric_of with_year kg =
     (case kg of (k, grp) \<Rightarrow>
        \<lparr>sp_taxonKey = k,
         sp_scientificName = agg_first (map j_scientificName grp),
         sp_n_occurrences_natura = agg_size (map j_taxonKey grp),
         sp_n_sites = agg_nunique (map SITECODE grp),
         sp_n_ms = agg_nunique (map MS grp),
         sp_temporal =
           (if with_year then Some (general_division (year_agg grp)) else None)\<rparr>)"

text \<open>
  The species table after line 259, one row per taxon key, and the table that is
  written, after the assignment of lines 261 to 263 on every row. Without a year
  column neither step runs.
\<close>

definition species_rows_divided :: "bool \<Rightarrow> joined_row list \<Rightarrow> species_metric list" where
  "species_rows_divided with_year df_in_site =
     map (species_metric_of with_year) (groupby j_taxonKey df_in_site)"

definition force_row :: "species_metric \<Rightarrow> species_metric" where
  "force_row m = m\<lparr>sp_temporal := map_option force_single_year (sp_temporal m)\<rparr>"

definition species_rows :: "bool \<Rightarrow> joined_row list \<Rightarrow> species_metric list" where
  "species_rows with_year df_in_site = map force_row (species_rows_divided with_year df_in_site)"

definition species_metrics :: "frame \<Rightarrow> joined_row list \<Rightarrow> py_error + species_metric list option" where
  "species_metrics df df_in_site =
     (if TAXON_KEY_COL \<in> set (columns df) then
        (case missing_columns (columns df) [SPECIES_COL, SITE_CODE_COL, MS_COL] of
           [] \<Rightarrow> Inr (Some (species_rows (has_year df) df_in_site))
         | c # cs \<Rightarrow> Inl (KeyError (c # cs)))
      else Inr None)"

record sitetype_metric =
  st_SITETYPE :: string
  st_n_sites :: nat
  st_n_occurrences :: nat
  st_n_species :: nat
  st_years :: "year_stats option"

definition sitetype_metric_of :: "bool \<Rightarrow> string \<times> joined_row list \<Rightarrow> sitetype_metric" where
  "sitetype_metric_of with_year kg =
     (case kg of (k, grp) \<Rightarrow>
        \<lparr>st_SITETYPE = k,
         st_n_sites = agg_nunique (map SITECODE grp),
         st_n_occurrences = agg_size (map j_taxonKey grp),
         st_n_species = agg_nunique (map j_scientificName grp),
         st_years = (if with_year then Some (year_agg grp) else None)\<rparr>)"

definition sitetype_metrics :: "frame \<Rightarrow> joined_row list \<Rightarrow> py_error + sitetype_metric list option" where
  "sitetype_metrics df df_in_site =
     (if SITETYPE_COL \<in> set (columns df) then
        (case missing_columns (columns df) [SITE_CODE_COL, TAXON_KEY_COL, SPECIES_COL] of
           [] \<Rightarrow> Inr (Some (map (sitetype_metric_of (has_year df)) (groupby SITETYPE df_in_site)))
         | c # cs \<Rightarrow> Inl (KeyError (c # cs)))
      else Inr None)"

text \<open>
  \<open>Series.clip(lower, upper)\<close> on one float64 value: an infinity goes to the bound
  on its side, NaN stays NaN.
\<close>

fun clip :: "real \<Rightarrow> real \<Rightarrow> float64 \<Rightarrow> float64" where
  "clip lower upper (Finite x) = Finite (min upper (max lower x))"
| "clip lower upper PosInf = Finite upper"
| "clip lower upper NegInf = Finite lower"
| "clip lower upper NotANumber = NotANumber"

record site_gap = year_stats +
  sg_SITECODE :: string
  sg_site_name :: "string option"
  sg_ms :: "string option"
  sg_site_type :: "string option"
  sg_n_occurrences :: nat
  expected_years :: "int option"
  missing_years :: "int option"
  gap_fraction :: "float64 option"

text \<open>
  \<open>expected_years\<close>, \<open>missing_years\<close> and \<open>gap_fraction\<close> from the three year columns
  of a site; each is null when the site has no year.
\<close>

definition expected_of :: "int option \<Rightarrow> int option \<Rightarrow> int option" where
  "expected_of hi lo = map_option (\<lambda>s. wrap64 (s + 1)) (span_of hi lo)"

definition missing_of :: "int option \<Rightarrow> nat \<Rightarrow> int option" where
  "missing_of expected n = map_option (\<lambda>e. wrap64 (e - int n)) expected"

definition fraction_of :: "int option \<Rightarrow> int option \<Rightarrow> float64 option" where
  "fraction_of missing expected =
     (case missing of None \<Rightarrow> None
      | Some m \<Rightarrow>
          (case expected of None \<Rightarrow> None
           | Some e \<Rightarrow> Some (clip 0 1 (true_divide m e))))"

definition site_gap_of :: "string \<times> joined_row list \<Rightarrow> site_gap" where
  "site_gap_of kg =
     (case kg of (k, grp) \<Rightarrow>
        (let ys = year_agg grp;
             expected = expected_of (year_max ys) (year_min ys);
             missing = missing_of expected (n_years ys)
         in \<lparr>year_min = year_min ys, year_max = year_max ys, n_years = n_years ys,
             sg_SITECODE = k,
             sg_site_name = agg_first (map SITENAME grp),
             sg_ms = agg_first (map MS grp),
             sg_site_type = agg_first (map SITETYPE grp),
             sg_n_occurrences = agg_size (map j_taxonKey grp),
             expected_years = expected,
             missing_years = missing,
             gap_fraction = fraction_of missing expected\<rparr>))"

definition gap_rows :: "joined_row list \<Rightarrow> site_gap list" where
  "gap_rows df_in_site = map site_gap_of (groupby SITECODE df_in_site)"

definition sites_gaps :: "frame \<Rightarrow> joined_row list \<Rightarrow> py_error + site_gap list option" where
  "sites_gaps df df_in_site =
     (if has_year df \<and> SITE_CODE_COL \<in> set (columns df) then
        (case missing_columns (columns df) [SITE_NAME_COL, MS_COL, SITETYPE_COL, TAXON_KEY_COL] of
           [] \<Rightarrow> Inr (Some (gap_rows df_in_site))
         | c # cs \<Rightarrow> Inl (KeyError (c # cs)))
      else Inr None)"

text \<open>The files a run of the advanced metrics writes and how it ends.\<close>

record advanced_outputs =
  species_metrics_csv :: "species_metric list option"
  sitetype_metrics_csv :: "sitetype_metric list option"
  sites_gaps_csv :: "site_gap list option"
  advanced_exit :: exit_kind

definition advanced_metrics :: "frame \<Rightarrow> advanced_outputs" where
  "advanced_metrics df =
     (let df_in_site = in_site df;
          nothing = \<lparr>species_metrics_csv = None, sitetype_metrics_csv = None,
                     sites_gaps_csv = None, advanced_exit = SystemExit 0\<rparr>
      in if df_in_site = [] then nothing
         else
           (case species_metrics df df_in_site of
              Inl e \<Rightarrow> nothing\<lparr>advanced_exit := Raised e\<rparr>
            | Inr sp \<Rightarrow>
                (case sitetype_metrics df df_in_site of
                   Inl e \<Rightarrow> nothing\<lparr>species_metrics_csv := sp, advanced_exit := Raised e\<rparr>
                 | Inr st \<Rightarrow>
                     (case sites_gaps df df_in_site of
                        Inl e \<Rightarrow>
                          nothing\<lparr>species_metrics_csv := sp, sitetype_metrics_csv := st,
                                  advanced_exit := Raised e\<rparr>
                      | Inr sg \<Rightarrow>
                          \<lparr>species_metrics_csv = sp, sitetype_metrics_csv = st,
                           sites_gaps_csv = sg, advanced_exit = Completed\<rparr>))))"

subsection \<open>Example tables\<close>

definition jrow :: "int \<Rightarrow> int option \<Rightarrow> string option \<Rightarrow> joined_row" where
  "jrow k y sc =
     \<lparr>j_taxonKey = Some k, j_scientificName = Some ''Aquila chrysaetos'', j_year = y,
      SITECODE = sc, SITENAME = Some ''Olympos'', MS = Some ''GR'', SITETYPE = Some ''A''\<rparr>"

definition all_columns :: "string list" where
  "all_columns = [TAXON_KEY_COL, SPECIES_COL, YEAR_COL, SITE_CODE_COL, SITE_NAME_COL, MS_COL,
                  SITETYPE_COL]"

definition outside_only :: frame where
  "outside_only = \<lparr>columns = all_columns, rows = [jrow 5 (Some 2001) None, jrow 7 None None]\<rparr>"

definition site_X :: "joined_row list" where
  "site_X = [jrow 5 (Some 2001) (Some ''X''), jrow 5 (Some 2003) (Some ''X''),
             jrow 7 (Some 2003) (Some ''X''), jrow 7 None (Some ''X'')]"

definition taxon_5 :: "joined_row list" where
  "taxon_5 = [jrow 5 (Some 2001) (Some ''X''), jrow 5 (Some 2003) (Some ''X'')]"

definition taxon_7 :: "joined_row list" where
  "taxon_7 = [jrow 7 (Some 2003) (Some ''X''), jrow 7 None (Some ''X'')]"

text \<open>A table with rows inside and outside the sites.\<close>

definition mixed :: frame where
  "mixed = \<lparr>columns = all_columns,
            rows = jrow 9 (Some 1999) None # site_X @ [jrow 5 (Some 1985) None]\<rparr>"

text \<open>Rows of one site and one taxon with years at the two ends of the int64 range.\<close>

definition extreme_site :: "joined_row list" where
  "extreme_site = [jrow 5 (Some (- 9223372036854775808)) (Some ''X''),
                   jrow 5 (Some 9223372036854775807) (Some ''X'')]"

definition far_apart :: "joined_row list" where
  "far_apart = [jrow 5 (Some (- 5000000000000000000)) (Some ''X''),
                jrow 5 (Some 5000000000000000000) (Some ''X'')]"

text \<open>
  What Python reads of the texts of the examples: \<open>99\<close> is a number and an integer
  literal, \<open>99.0\<close> is a number and no integer literal, and no other text of the
  examples is a number.
\<close>

definition example_readers :: readers where
  "example_readers =
     \<lparr>numeric_text = (\<lambda>s. s = ''99'' \<or> s = ''99.0''),
      int_literal = (\<lambda>s. if s = ''99'' then Some 99 else None)\<rparr>"

text \<open>The species list of the scenario: the accepted keys are float64, with a NaN.\<close>

definition scenario_list :: species_df where
  "scenario_list =
     \<lparr>usageKey = IntSeries [10, 20], acceptedUsageKey = FloatSeries [None, Some 99]\<rparr>"

text \<open>A species list with missing, unreadable and repeated keys.\<close>

definition species_list :: species_df where
  "species_list =
     \<lparr>usageKey = ObjectSeries [PStr ''99'', PStr ''synonym'', PNaN, PStr ''99'', PStr ''x''],
      acceptedUsageKey = FloatSeries [Some 10, None, None, None, Some 10]\<rparr>"

text \<open>An accepted key of \<open>2^63\<close>, which makes its column uint64.\<close>

definition huge_key_list :: species_df where
  "huge_key_list =
     \<lparr>usageKey = IntSeries [10], acceptedUsageKey = UIntSeries [9223372036854775808]\<rparr>"

text \<open>A usage key above \<open>2^53\<close> that falls back into a float64 column.\<close>

definition large_key_list :: species_df where
  "large_key_list =
     \<lparr>usageKey = IntSeries [9007199254740993], acceptedUsageKey = FloatSeries [None]\<rparr>"

text \<open>A usage key written with a decimal point, in a column that also has a text.\<close>

definition decimal_key_list :: species_df where
  "decimal_key_list =
     \<lparr>usageKey = ObjectSeries [PStr ''synonym'', PStr ''99.0''],
      acceptedUsageKey = FloatSeries [None, None]\<rparr>"

text \<open>
  Points on a grid and rectangles for polygons, with strict containment: the first
  point lies in both rectangles, the second in none.
\<close>

definition in_box :: "int \<times> int \<Rightarrow> (int \<times> int) \<times> (int \<times> int) \<Rightarrow> bool" where
  "in_box pt box =
     (case pt of (x, y) \<Rightarrow>
        (case box of ((x0, y0), (x1, y1)) \<Rightarrow> x0 < x \<and> x < x1 \<and> y0 < y \<and> y < y1))"

definition two_points :: "(string \<times> int \<times> int) list" where
  "two_points = [(''inside'', (2, 2)), (''outside'', (9, 9))]"

definition two_boxes :: "(string \<times> (int \<times> int) \<times> (int \<times> int)) list" where
  "two_boxes = [(''GR1'', ((0, 0), (4, 4))), (''GR2'', ((1, 1), (5, 5)))]"

subsection \<open>What the year columns of a group satisfy\<close>

text \<open>Either the group has no year at all, or its years lie in a range that holds them.\<close>

definition years_sound :: "'a year_stats_scheme \<Rightarrow> bool" where
  "years_sound ys =
     ((year_min ys = None \<and> year_max ys = None \<and> n_years ys = 0) \<or>
      (\<exists>lo hi. year_min ys = Some lo \<and> year_max ys = Some hi \<and> lo \<le> hi \<and>
          0 < n_years ys \<and> int (n_years ys) \<le> hi - lo + 1 \<and>
          (n_years ys = 1 \<longleftrightarrow> hi = lo)))"

text \<open>
  The range of the years of a group fits int64: \<open>year_max - year_min + 1\<close> is below
  \<open>2^63\<close>, so that no step of the year arithmetic wraps around.
\<close>

definition span_fits :: "'a year_stats_scheme \<Rightarrow> bool" where
  "span_fits ys =
     (case year_max ys of None \<Rightarrow> True
      | Some hi \<Rightarrow> (case year_min ys of None \<Rightarrow> True | Some lo \<Rightarrow> hi - lo + 1 < 2 ^ 63))"

section \<open>Properties of the quality filter\<close>

lemma series_and_map: "series_and (map P xs) (map Q xs) = map (\<lambda>r. P r \<and> Q r) xs"
  by (induction xs) (simp_all add: series_and_def)

lemma replicate_True_map: "replicate (length xs) True = map (\<lambda>r. True) xs"
  by (induction xs) simp_all

lemma apply_mask_map: "apply_mask xs (map P xs) = filter P xs"
  by (induction xs) (simp_all add: apply_mask_def)

lemma and_bound_map:
  "and_bound (\<lambda>v. map (\<lambda>r. cmp r v) xs) b (map P xs) =
     map (\<lambda>r. P r \<and> (case b of None \<Rightarrow> True | Some v \<Rightarrow> cmp r v)) xs"
  by (cases b) (simp_all add: and_bound_def series_and_map)

lemma spatial_mask_map:
  "spatial_mask cfg xs (map P xs) =
     map (\<lambda>r. P r \<and>
      (case LAT_MIN cfg of None \<Rightarrow> True | Some v \<Rightarrow> ge_cell (decimalLatitude r) v) \<and>
      (case LAT_MAX cfg of None \<Rightarrow> True | Some v \<Rightarrow> le_cell (decimalLatitude r) v) \<and>
      (case LON_MIN cfg of None \<Rightarrow> True | Some v \<Rightarrow> ge_cell (decimalLongitude r) v) \<and>
      (case LON_MAX cfg of None \<Rightarrow> True | Some v \<Rightarrow> le_cell (decimalLongitude r) v)) xs"
proof (cases "spatial_filter_active cfg")
  case True
  then show ?thesis
    by (simp add: spatial_mask_def and_bound_map conj_assoc)
next
  case False
  then show ?thesis
    by (simp add: spatial_mask_def spatial_filter_active_def)
qed

lemma temporal_mask_map:
  "temporal_mask cfg xs (map P xs) =
     map (\<lambda>r. P r \<and>
      (case YEAR_MIN cfg of None \<Rightarrow> True | Some v \<Rightarrow> ge_cell (year r) v) \<and>
      (case YEAR_MAX cfg of None \<Rightarrow> True | Some v \<Rightarrow> le_cell (year r) v)) xs"
  by (simp add: temporal_mask_def and_bound_map conj_assoc)

lemma build_mask_map: "build_mask cfg xs = map (mask_pred cfg) xs"
  by (simp add: build_mask_def replicate_True_map series_and_map spatial_mask_map
        temporal_mask_map mask_pred_def conj_assoc)

lemma mask_pred_year: "year_filter_active cfg \<Longrightarrow> mask_pred cfg r \<Longrightarrow> year r \<noteq> Null"
  by (auto simp: year_filter_active_def mask_pred_def)

lemma dropna_year_redundant:
  "filter (mask_pred cfg) (dropna_year cfg xs) = filter (mask_pred cfg) xs"
  by (auto simp: dropna_year_def intro!: filter_cong dest: mask_pred_year)

lemma mask_pred_coerce:
  "mask_pred cfg (coerce_row r) =
     (isin (basisOfRecord r) ALLOWED_BASIS \<and>
      fillna 0 (to_numeric (coordinateUncertaintyInMeters r)) < 1000 \<and> optional_ok cfg r)"
  by (simp add: mask_pred_def coerce_row_def optional_ok_def lower_ok_def upper_ok_def conj_assoc
           cong: option.case_cong)

lemma filter_chunk_eq: "filter_chunk cfg chunk = map coerce_row (filter (satisfies_all cfg) chunk)"
proof -
  have "filter_chunk cfg chunk =
          filter (mask_pred cfg) (map coerce_row (dropna_critical chunk))"
    by (simp add: filter_chunk_def Let_def build_mask_map apply_mask_map dropna_year_redundant)
  also have "\<dots> = map coerce_row (filter (satisfies_all cfg) chunk)"
    by (auto simp: filter_map dropna_critical_def o_def mask_pred_coerce satisfies_all_def
                   mandatory_ok_def intro!: arg_cong[where f="map coerce_row"] filter_cong)
  finally show ?thesis .
qed

lemma lower_ok_mono: "tighter_lower b' b \<Longrightarrow> lower_ok b' c \<Longrightarrow> lower_ok b c"
  by (cases "to_numeric c") (auto simp: tighter_lower_def lower_ok_def split: option.splits)

lemma upper_ok_mono: "tighter_upper b' b \<Longrightarrow> upper_ok b' c \<Longrightarrow> upper_ok b c"
  by (cases "to_numeric c") (auto simp: tighter_upper_def upper_ok_def split: option.splits)

lemma satisfies_all_mono: "tightens cfg' cfg \<Longrightarrow> satisfies_all cfg' r \<Longrightarrow> satisfies_all cfg r"
  unfolding tightens_def satisfies_all_def optional_ok_def
  by (blast intro: lower_ok_mono upper_ok_mono)

lemma length_filter_mono:
  "(\<And>x. P x \<Longrightarrow> Q x) \<Longrightarrow> length (filter P xs) \<le> length (filter Q xs)"
  by (induction xs) auto

lemma counter_incr_sum: "sum_list (counter_values (counter_incr k c)) = Suc (sum_list (counter_values c))"
  by (induction c) (auto simp: counter_values_def)

lemma counter_update_sum:
  "sum_list (counter_values (counter_update c xs)) = sum_list (counter_values c) + length xs"
  unfolding counter_update_def
  by (induction xs arbitrary: c) (simp_all add: counter_incr_sum)

lemma counter_incr_keys: "set (counter_keys (counter_incr k c)) = insert k (set (counter_keys c))"
  by (induction k c rule: counter_incr.induct) (auto simp: counter_keys_def)

lemma counter_update_keys:
  "set (counter_keys (counter_update c xs)) = set (counter_keys c) \<union> set xs"
  unfolding counter_update_def
  by (induction xs arbitrary: c) (simp_all add: counter_incr_keys)

lemma counter_update_Nil: "counter_update c [] = c"
  by (simp add: counter_update_def)

lemma update_counters_basis:
  "basis_counter (update_counters fc st) =
     counter_update (basis_counter st) (dropna_text (map basisOfRecord fc))"
  by (simp add: update_counters_def counter_update_Nil dropna_text_def)

lemma update_counters_species:
  "species_counter (update_counters fc st) =
     counter_update (species_counter st) (map scientificName fc)"
  by (simp add: update_counters_def counter_update_Nil)

lemma update_counters_taxon:
  "taxon_counter (update_counters fc st) = counter_update (taxon_counter st) (map taxonKey fc)"
  by (simp add: update_counters_def counter_update_Nil)

lemma update_counters_country:
  "country_counter (update_counters fc st) =
     counter_update (country_counter st) (dropna_text (map countryCode fc))"
  by (simp add: update_counters_def counter_update_Nil dropna_text_def)

lemma update_counters_year:
  "year_counter (update_counters fc st) =
     counter_update (year_counter st) (dropna_num (map year fc))"
  by (simp add: update_counters_def counter_update_Nil dropna_num_def)

lemma update_counters_other:
  "filtered_records (update_counters fc st) = filtered_records st"
  "filtered_data (update_counters fc st) = filtered_data st"
  "total_records (update_counters fc st) = total_records st"
  by (simp_all add: update_counters_def)

lemma isin_not_None: "isin v vs \<Longrightarrow> v \<noteq> None"
  by (cases v) simp_all

lemma filter_chunk_basis: "r \<in> set (filter_chunk cfg chunk) \<Longrightarrow> basisOfRecord r \<noteq> None"
  by (auto simp: filter_chunk_eq satisfies_all_def mandatory_ok_def coerce_row_def
           dest: isin_not_None)

lemma dropna_text_basis:
  "dropna_text (map basisOfRecord (filter_chunk cfg chunk)) = map basisOfRecord (filter_chunk cfg chunk)"
  unfolding dropna_text_def by (rule filter_True) (auto dest: filter_chunk_basis)

lemma counters_consistent_initial: "counters_consistent initial_state"
  by (simp add: counters_consistent_def initial_state_def counter_values_def counter_keys_def)

lemma keys_step:
  assumes "set (counter_keys c) \<subseteq> f ` set (concat fd)" and "set xs \<subseteq> f ` set fc"
  shows "set (counter_keys (counter_update c xs)) \<subseteq> f ` set (concat (fd @ [fc]))"
proof -
  have "f ` set (concat (fd @ [fc])) = f ` set (concat fd) \<union> f ` set fc"
    by (simp add: image_Un)
  with assms show ?thesis
    by (simp add: counter_update_keys le_supI1 le_supI2)
qed

lemma process_chunk_fields:
  "filtered_data (process_chunk cfg st chunk) = filtered_data st @ [filter_chunk cfg chunk]"
  "filtered_records (process_chunk cfg st chunk) =
     filtered_records st + length (filter_chunk cfg chunk)"
  "species_counter (process_chunk cfg st chunk) =
     counter_update (species_counter st) (map scientificName (filter_chunk cfg chunk))"
  "taxon_counter (process_chunk cfg st chunk) =
     counter_update (taxon_counter st) (map taxonKey (filter_chunk cfg chunk))"
  "country_counter (process_chunk cfg st chunk) =
     counter_update (country_counter st) (dropna_text (map countryCode (filter_chunk cfg chunk)))"
  "basis_counter (process_chunk cfg st chunk) =
     counter_update (basis_counter st) (map basisOfRecord (filter_chunk cfg chunk))"
  "year_counter (process_chunk cfg st chunk) =
     counter_update (year_counter st) (dropna_num (map year (filter_chunk cfg chunk)))"
  by (simp_all add: process_chunk_def Let_def update_counters_basis update_counters_species
        update_counters_taxon update_counters_country update_counters_year
        update_counters_other dropna_text_basis)

lemma counters_consistent_step:
  assumes "counters_consistent st"
  shows "counters_consistent (process_chunk cfg st chunk)"
proof -
  let ?fc = "filter_chunk cfg chunk"
  have a: "set (dropna_text (map countryCode ?fc)) \<subseteq> countryCode ` set ?fc"
    by (auto simp: dropna_text_def)
  have b: "set (dropna_num (map year ?fc)) \<subseteq> year ` set ?fc"
    by (auto simp: dropna_num_def)
  have c: "set (map f ?fc) \<subseteq> f ` set ?fc" for f :: "occurrence \<Rightarrow> 'b"
    by simp
  from assms show ?thesis
    unfolding counters_consistent_def process_chunk_fields
    by (intro conjI keys_step a b c) (simp_all add: counter_update_sum)
qed

lemma counters_consistent_run: "counters_consistent (process_chunks cfg chunks)"
  unfolding process_chunks_def
  by (induction chunks rule: rev_induct)
     (simp_all add: counters_consistent_initial counters_consistent_step)

lemma filtered_data_foldl:
  "filtered_data (foldl (process_chunk cfg) st chunks) =
     filtered_data st @ map (filter_chunk cfg) chunks"
  by (induction chunks arbitrary: st)
     (simp_all add: process_chunk_def Let_def update_counters_other)

lemma filtered_data_run: "filtered_data (process_chunks cfg chunks) = map (filter_chunk cfg) chunks"
  by (simp add: process_chunks_def filtered_data_foldl initial_state_def)

text \<open>Unfolding rules for running the filter on concrete rows.\<close>

lemmas filter_eval =
  filter_chunk_def dropna_critical_def dropna_year_def year_filter_active_def build_mask_def
  spatial_mask_def spatial_filter_active_def temporal_mask_def and_bound_def series_and_def
  apply_mask_def coerce_row_def ALLOWED_BASIS_def no_bounds_def box_wide_def box_narrow_def
  row_A_def row_B_def row_C_def row_D_def Let_def

lemmas run_eval =
  process_chunks_def process_chunk_def update_counters_def initial_state_def
  counter_update_def counter_values_def counter_keys_def dropna_text_def dropna_num_def
  persist_def write_report_def run_filter_def

lemmas spec_eval =
  satisfies_all_def mandatory_ok_def optional_ok_def lower_ok_def upper_ok_def

text \<open>
  Claim C1. For every chunk and every configuration, the filtered chunk holds exactly
  the rows that satisfy every mandatory predicate and every configured optional bound,
  in their order, each with its numeric columns converted. Consequently a
  configuration that tightens the bounds of another never keeps more rows.
\<close>

theorem filter_conjunction_monotone:
  "filter_chunk cfg chunk = map coerce_row (filter (satisfies_all cfg) chunk) \<and>
   (tightens cfg' cfg \<longrightarrow> length (filter_chunk cfg' chunk) \<le> length (filter_chunk cfg chunk))"
proof
  show "filter_chunk cfg chunk = map coerce_row (filter (satisfies_all cfg) chunk)"
    by (rule filter_chunk_eq)
  show "tightens cfg' cfg \<longrightarrow> length (filter_chunk cfg' chunk) \<le> length (filter_chunk cfg chunk)"
    by (simp add: filter_chunk_eq length_filter_mono satisfies_all_mono)
qed

theorem filter_conjunction_monotone_witness:
  "tightens box_narrow box_wide \<and>
   filter_chunk box_wide [row_A, row_B, row_C, row_D] = [row_A, coerce_row row_D] \<and>
   filter_chunk box_narrow [row_A, row_B, row_C, row_D] = [row_A] \<and>
   length (filter_chunk box_narrow [row_A, row_B, row_C, row_D])
     \<le> length (filter_chunk box_wide [row_A, row_B, row_C, row_D])"
proof -
  have t: "tightens box_narrow box_wide"
    by (simp add: tightens_def tighter_lower_def tighter_upper_def box_narrow_def box_wide_def
          no_bounds_def)
  have w: "filter (satisfies_all box_wide) [row_A, row_B, row_C, row_D] = [row_A, row_D]"
    by (simp add: spec_eval filter_eval)
  have n: "filter (satisfies_all box_narrow) [row_A, row_B, row_C, row_D] = [row_A]"
    by (simp add: spec_eval filter_eval)
  have a: "coerce_row row_A = row_A"
    by (simp add: coerce_row_def row_A_def)
  from filter_conjunction_monotone[of box_wide "[row_A, row_B, row_C, row_D]" box_narrow]
       filter_conjunction_monotone[of box_narrow "[row_A, row_B, row_C, row_D]" box_narrow]
       t w n a
  show ?thesis by simp
qed

text \<open>
  Claim C2. In a chunk of three rows filtered with no optional bound, a row A with its
  critical fields present, basis HUMAN_OBSERVATION and a null coordinate uncertainty
  passes; a row B with uncertainty 1500 and a row C with basis FOSSIL_SPECIMEN fail,
  whatever their other fields and whatever the configuration.
\<close>

theorem scenario_three_rows:
  assumes "scientificName a \<noteq> None" and "taxonKey a \<noteq> Null"
    and "decimalLatitude a \<noteq> Null" and "decimalLongitude a \<noteq> Null"
    and "basisOfRecord a = Some ''HUMAN_OBSERVATION''"
    and "coordinateUncertaintyInMeters a = Null"
    and "coordinateUncertaintyInMeters b = Num 1500"
    and "basisOfRecord c = Some ''FOSSIL_SPECIMEN''"
  shows "filter_chunk no_bounds [a, b, c] = [coerce_row a] \<and>
         filter_chunk cfg [a, b, c] = filter_chunk cfg [a]"
proof -
  have b: "\<not> satisfies_all cfg' b" for cfg'
    using assms(7) by (simp add: satisfies_all_def mandatory_ok_def)
  have c: "\<not> satisfies_all cfg' c" for cfg'
    using assms(8) by (simp add: satisfies_all_def mandatory_ok_def ALLOWED_BASIS_def)
  have a: "satisfies_all no_bounds a"
    using assms(1-6) by (simp add: spec_eval ALLOWED_BASIS_def no_bounds_def)
  show ?thesis
    by (simp add: filter_chunk_eq a b c)
qed

theorem scenario_three_rows_witness:
  "filter_chunk no_bounds [row_A, row_B, row_C] = [row_A] \<and>
   filter_chunk box_narrow [row_A, row_B, row_C] = filter_chunk box_narrow [row_A]"
proof -
  have a: "coerce_row row_A = row_A"
    by (simp add: coerce_row_def row_A_def)
  from scenario_three_rows[of row_A row_B row_C box_narrow] a
  show ?thesis
    by (simp add: row_A_def row_B_def row_C_def)
qed

text \<open>
  Claim C3. The script appends every filtered chunk, empty or not, so with at least
  one chunk read the filtered table is written even when no row survives, and the
  message for an empty result is not printed. With no chunk at all the message is
  printed and no table is written, and the report then fails on the unbound name
  \<open>filtered_df\<close>.
\<close>

theorem empty_result_still_written:
  "(chunks \<noteq> [] \<longrightarrow>
      filtered_file (run_filter cfg chunks) = Some (concat (map (filter_chunk cfg) chunks)) \<and>
      ''No data after filtering.'' \<notin> set (stdout (run_filter cfg chunks))) \<and>
   (chunks = [] \<longrightarrow>
      filtered_file (run_filter cfg chunks) = None \<and>
      stdout (run_filter cfg chunks) = [''No data after filtering.''] \<and>
      result (run_filter cfg chunks) = Inl (NameError ''filtered_df''))"
proof (cases "chunks = []")
  case True
  then show ?thesis
    by (simp add: run_filter_def Let_def persist_def process_chunks_def initial_state_def
          write_report_def)
next
  case False
  then have "persist (filtered_data (process_chunks cfg chunks)) =
      (Some (concat (map (filter_chunk cfg) chunks)), [])"
    by (simp add: persist_def filtered_data_run)
  with False show ?thesis
    by (simp add: run_filter_def Let_def write_report_def)
qed

theorem empty_result_still_written_witness:
  "filter_chunk no_bounds [row_C] = [] \<and>
   filtered_file (run_filter no_bounds [[row_C]]) = Some [] \<and>
   ''No data after filtering.'' \<notin> set (stdout (run_filter no_bounds [[row_C]])) \<and>
   result (run_filter no_bounds []) = Inl (NameError ''filtered_df'')"
proof -
  have "filter_chunk no_bounds [row_C] = []"
    by (simp add: filter_eval)
  with empty_result_still_written[of "[[row_C]]" no_bounds]
       empty_result_still_written[of "[]" no_bounds]
  show ?thesis by simp
qed

text \<open>
  Claim C4. After every chunk is processed, the values of \<open>basis_counter\<close> sum to the
  number of filtered records, which is the number of rows of the filtered table, and
  the keys of each of the five counters are values of its field in the filtered table.
\<close>

theorem counters_follow_filtered_rows:
  fixes cfg :: config and chunks :: "occurrence list list"
  defines "st \<equiv> process_chunks cfg chunks"
  defines "filtered_df \<equiv> concat (filtered_data st)"
  shows "sum_list (counter_values (basis_counter st)) = filtered_records st \<and>
         filtered_records st = length filtered_df \<and>
         set (counter_keys (species_counter st)) \<subseteq> scientificName ` set filtered_df \<and>
         set (counter_keys (taxon_counter st)) \<subseteq> taxonKey ` set filtered_df \<and>
         set (counter_keys (country_counter st)) \<subseteq> countryCode ` set filtered_df \<and>
         set (counter_keys (basis_counter st)) \<subseteq> basisOfRecord ` set filtered_df \<and>
         set (counter_keys (year_counter st)) \<subseteq> year ` set filtered_df"
proof -
  have "counters_consistent (process_chunks cfg chunks)"
    by (rule counters_consistent_run)
  then show ?thesis
    unfolding counters_consistent_def st_def filtered_df_def by simp
qed

theorem counters_follow_filtered_rows_witness:
  "filtered_records (process_chunks no_bounds [[row_A, row_B], [row_C, row_D]]) = 2 \<and>
   sum_list (counter_values (basis_counter
      (process_chunks no_bounds [[row_A, row_B], [row_C, row_D]]))) = 2 \<and>
   set (counter_keys (year_counter (process_chunks no_bounds [[row_A, row_B], [row_C, row_D]])))
     \<subseteq> {Num 2001, Null}"
proof -
  have r: "filtered_records (process_chunks no_bounds [[row_A, row_B], [row_C, row_D]]) = 2"
    by (simp add: run_eval filter_eval)
  have d: "filtered_data (process_chunks no_bounds [[row_A, row_B], [row_C, row_D]]) =
      [[row_A], [coerce_row row_D]]"
    by (simp add: filtered_data_run filter_chunk_eq spec_eval filter_eval)
  have y: "year ` set (concat [[row_A], [coerce_row row_D]]) = {Num 2001, Null}"
    by (simp add: coerce_row_def row_A_def row_D_def)
  from counters_follow_filtered_rows[of no_bounds "[[row_A, row_B], [row_C, row_D]]"] r d y
  show ?thesis by simp
qed

section \<open>Properties of the taxon keys\<close>

lemma set_unique: "set (unique xs) = set xs"
  by (simp add: unique_def)

lemma distinct_unique: "distinct (unique xs)"
  by (simp add: unique_def)

lemma notnull_numeric_cells: "notnull_numeric rd s = map (reads_numeric rd) (cells s)"
  by (cases s) (simp_all add: o_def split: option.splits)

lemma apply_mask_map_commute: "apply_mask (map f xs) m = map f (apply_mask xs m)"
proof -
  have "zip (map f xs) m = map (\<lambda>(x, b). (f x, b)) (zip xs m)"
    by (simp add: zip_map1)
  then show ?thesis
    by (simp add: apply_mask_def filter_map o_def case_prod_unfold)
qed

lemma cells_select_rows: "cells (select_rows m s) = apply_mask (cells s) m"
  by (cases s) (simp_all add: apply_mask_map_commute)

lemma kept_cells:
  "cells (select_rows (notnull_numeric rd s) s) = filter (reads_numeric rd) (cells s)"
  by (simp add: cells_select_rows notnull_numeric_cells apply_mask_map)

lemma collect_all_Inr: "(\<And>x. x \<in> set xs \<Longrightarrow> f x = Inr (g x)) \<Longrightarrow> collect (map f xs) = Inr (map g xs)"
  by (induction xs) simp_all

lemma small_in_int64: "small k \<Longrightarrow> in_int64 k"
  unfolding small_def in_int64_def by simp linarith

lemma wrap64_small: "small k \<Longrightarrow> wrap64 k = k"
  using small_in_int64[of k] by (simp add: wrap64_def in_int64_def)

lemma float_of_int64_small: "small k \<Longrightarrow> float_of_int64 k = of_int k"
proof -
  assume "small k"
  then have a: "\<bar>k\<bar> < 2 ^ 53"
    by (simp add: small_def)
  have "filter (\<lambda>i. 2 ^ (53 + i) \<le> \<bar>k\<bar>) [0..<11] = []"
  proof -
    have "\<not> (2::int) ^ (53 + i) \<le> \<bar>k\<bar>" for i
    proof -
      have "(2::int) ^ 53 \<le> 2 ^ (53 + i)"
        by (rule power_increasing) simp_all
      with a show ?thesis by linarith
    qed
    then show ?thesis
      by (simp add: filter_empty_conv)
  qed
  then have "float_of_int64 k = of_int (sgn k * \<bar>k\<bar>)"
    by (simp add: float_of_int64_def Let_def del: of_int_mult)
  then show ?thesis
    by (simp only: mult_sgn_abs)
qed

lemma py_trunc_of_int: "py_trunc (of_int k) = k"
  by (simp add: py_trunc_def)

lemma int_of_object_exact:
  "exact_key rd v \<Longrightarrow> reads_numeric rd v \<Longrightarrow> \<exists>k. key_of rd v = Some k \<and> int_of_object rd v = Inr k"
  by (cases v) (auto simp: fit_int64_def small_in_int64 split: option.splits)

lemma exact_numeric_key: "exact_key rd v \<Longrightarrow> reads_numeric rd v \<longleftrightarrow> key_of rd v \<noteq> None"
  by (cases v) (auto split: option.splits)

lemma astype_int_exact:
  assumes "list_all (exact_key rd) (cells s)" and "list_all (reads_numeric rd) (cells s)"
  shows "astype_int rd s = Inr (map (\<lambda>v. the (key_of rd v)) (cells s))"
proof (cases s)
  case (IntSeries a)
  then show ?thesis
    by (simp add: o_def)
next
  case (UIntSeries a)
  have "wrap64 k = k" if "k \<in> set a" for k
    using assms(1) that unfolding UIntSeries by (auto simp: list_all_iff wrap64_small)
  then have "map wrap64 a = a"
    by (simp add: map_idI)
  then show ?thesis
    by (simp add: UIntSeries o_def)
next
  case (FloatSeries a)
  have "int_of_float64 v = Inr (the (key_of rd (case v of None \<Rightarrow> PNaN | Some x \<Rightarrow> PFloat x)))"
    if "v \<in> set a" for v
    using assms that unfolding FloatSeries
    by (cases v) (auto simp: list_all_iff int_of_float64_def small_in_int64)
  then have "collect (map int_of_float64 a) =
      Inr (map (\<lambda>v. the (key_of rd (case v of None \<Rightarrow> PNaN | Some x \<Rightarrow> PFloat x))) a)"
    by (rule collect_all_Inr)
  then show ?thesis
    by (simp add: FloatSeries o_def)
next
  case (ObjectSeries a)
  have "int_of_object rd v = Inr (the (key_of rd v))" if "v \<in> set a" for v
    using assms that int_of_object_exact[of rd v] unfolding ObjectSeries
    by (auto simp: list_all_iff)
  then have "collect (map (int_of_object rd) a) = Inr (map (\<lambda>v. the (key_of rd v)) a)"
    by (rule collect_all_Inr)
  then show ?thesis
    by (simp add: ObjectSeries)
qed

lemma list_all2_zip_maps:
  assumes "\<And>x y. x \<in> set a \<Longrightarrow> y \<in> set b \<Longrightarrow> P (f (x, y)) (g (h x, h' y))"
  shows "list_all2 P (map f (zip a b)) (map g (zip (map h a) (map h' b)))"
proof -
  have "list_all2 (\<lambda>p q. P (f p) (g (case q of (x, y) \<Rightarrow> (h x, h' y)))) (zip a b) (zip a b)"
    using assms by (auto simp: list_all2_same dest: set_zip_leftD set_zip_rightD)
  then show ?thesis
    by (simp add: zip_map_map list_all2_map1 list_all2_map2)
qed

lemma map_as_zip: "length a = length b \<Longrightarrow> map h a = map (\<lambda>(x, y). h x) (zip a b)"
proof -
  assume "length a = length b"
  then have "map fst (zip a b) = a"
    by (rule map_fst_zip)
  then have "map h a = map h (map fst (zip a b))"
    by simp
  then show ?thesis
    by (simp add: o_def case_prod_unfold)
qed

lemma fillna_same_key:
  assumes len: "length (cells A) = length (cells U)"
    and ea: "list_all (exact_key rd) (cells A)" and eu: "list_all (exact_key rd) (cells U)"
  shows "list_all2 (same_key rd) (cells (fillna_series A U))
           (map preferred (zip (cells A) (cells U)))"
proof (cases A)
  case (IntSeries a)
  obtain h' and b :: "pyval list" where u: "cells U = map h' b" and "h' = id"
    by simp
  have l: "length a = length b"
    using len by (simp add: IntSeries u)
  have "list_all2 (same_key rd) (map (\<lambda>(x, y). PInt x) (zip a b))
          (map preferred (zip (map PInt a) (map h' b)))"
    using ea by (intro list_all2_zip_maps) (simp add: IntSeries list_all_iff preferred_def same_key_def)
  then show ?thesis
    using map_as_zip[OF l, of PInt] by (simp add: IntSeries u)
next
  case (UIntSeries a)
  obtain h' and b :: "pyval list" where u: "cells U = map h' b" and "h' = id"
    by simp
  have l: "length a = length b"
    using len by (simp add: UIntSeries u)
  have "list_all2 (same_key rd) (map (\<lambda>(x, y). PInt x) (zip a b))
          (map preferred (zip (map PInt a) (map h' b)))"
    using ea by (intro list_all2_zip_maps) (simp add: UIntSeries list_all_iff preferred_def same_key_def)
  then show ?thesis
    using map_as_zip[OF l, of PInt] by (simp add: UIntSeries u)
next
  case (FloatSeries a)
  let ?c = "\<lambda>v. case v of None \<Rightarrow> PNaN | Some x \<Rightarrow> PFloat x"
  have xa: "exact_key rd (?c x)" if "x \<in> set a" for x
    using ea that by (simp add: FloatSeries list_all_iff)
  show ?thesis
  proof (cases U)
    case (IntSeries b)
    have yb: "small y" if "y \<in> set b" for y
      using eu that by (auto simp: IntSeries list_all_iff)
    have "list_all2 (same_key rd)
            (map (\<lambda>p. ?c (case p of (x, y) \<Rightarrow>
                  (case x of None \<Rightarrow> Some (float_of_int64 y) | Some v \<Rightarrow> Some v))) (zip a b))
            (map preferred (zip (map ?c a) (map PInt b)))"
    proof (intro list_all2_zip_maps)
      fix x y assume "x \<in> set a" "y \<in> set b"
      with xa[of x] yb[of y] show "same_key rd
          (?c (case (x, y) of (x, y) \<Rightarrow>
              (case x of None \<Rightarrow> Some (float_of_int64 y) | Some v \<Rightarrow> Some v)))
          (preferred (?c x, PInt y))"
        by (cases x) (simp_all add: same_key_def preferred_def float_of_int64_small py_trunc_of_int)
    qed
    then show ?thesis
      by (simp add: FloatSeries IntSeries o_def)
  next
    case (UIntSeries b)
    have yb: "small y" if "y \<in> set b" for y
      using eu that by (auto simp: UIntSeries list_all_iff)
    have "list_all2 (same_key rd)
            (map (\<lambda>p. ?c (case p of (x, y) \<Rightarrow>
                  (case x of None \<Rightarrow> Some (float_of_int64 y) | Some v \<Rightarrow> Some v))) (zip a b))
            (map preferred (zip (map ?c a) (map PInt b)))"
    proof (intro list_all2_zip_maps)
      fix x y assume "x \<in> set a" "y \<in> set b"
      with xa[of x] yb[of y] show "same_key rd
          (?c (case (x, y) of (x, y) \<Rightarrow>
              (case x of None \<Rightarrow> Some (float_of_int64 y) | Some v \<Rightarrow> Some v)))
          (preferred (?c x, PInt y))"
        by (cases x) (simp_all add: same_key_def preferred_def float_of_int64_small py_trunc_of_int)
    qed
    then show ?thesis
      by (simp add: FloatSeries UIntSeries o_def)
  next
    case (FloatSeries b)
    have yb: "exact_key rd (?c y)" if "y \<in> set b" for y
      using eu that by (simp add: FloatSeries list_all_iff)
    have "list_all2 (same_key rd)
            (map (\<lambda>p. ?c (case p of (x, y) \<Rightarrow> (case x of None \<Rightarrow> y | Some v \<Rightarrow> Some v)))
               (zip a b))
            (map preferred (zip (map ?c a) (map ?c b)))"
    proof (intro list_all2_zip_maps)
      fix x y assume "x \<in> set a" "y \<in> set b"
      with xa[of x] yb[of y] show "same_key rd
          (?c (case (x, y) of (x, y) \<Rightarrow> (case x of None \<Rightarrow> y | Some v \<Rightarrow> Some v)))
          (preferred (?c x, ?c y))"
        by (cases x) (simp_all add: same_key_def preferred_def)
    qed
    then show ?thesis
      by (simp add: \<open>A = FloatSeries a\<close> FloatSeries o_def)
  next
    case (ObjectSeries b)
    have yb: "exact_key rd y" if "y \<in> set b" for y
      using eu that by (simp add: ObjectSeries list_all_iff)
    have l: "length a = length b"
      using len by (simp add: FloatSeries ObjectSeries)
    have m: "list_all2 (same_key rd)
            (map (\<lambda>(x, y). case x of None \<Rightarrow> y | Some v \<Rightarrow> PFloat v) (zip a b))
            (map preferred (zip (map ?c a) (map id b)))"
    proof (intro list_all2_zip_maps)
      fix x y assume "x \<in> set a" "y \<in> set b"
      with xa[of x] yb[of y] show "same_key rd
          (case (x, y) of (x, y) \<Rightarrow> (case x of None \<Rightarrow> y | Some v \<Rightarrow> PFloat v))
          (preferred (?c x, id y))"
        by (cases x) (simp_all add: same_key_def preferred_def)
    qed
    show ?thesis
    proof (cases "None \<in> set a")
      case True
      with m show ?thesis
        by (simp add: FloatSeries ObjectSeries)
    next
      case False
      have "list_all2 (same_key rd) (map (\<lambda>(x, y). ?c x) (zip a b))
              (map preferred (zip (map ?c a) (map id b)))"
      proof (intro list_all2_zip_maps)
        fix x y assume "x \<in> set a" "y \<in> set b"
        with xa[of x] False show "same_key rd (case (x, y) of (x, y) \<Rightarrow> ?c x)
            (preferred (?c x, id y))"
          by (cases x) (auto simp: same_key_def preferred_def)
      qed
      with False show ?thesis
        using map_as_zip[OF l, of ?c] by (simp add: FloatSeries ObjectSeries)
    qed
  qed
next
  case (ObjectSeries a)
  have xa: "exact_key rd x" if "x \<in> set a" for x
    using ea that by (simp add: ObjectSeries list_all_iff)
  let ?c = "\<lambda>v. case v of None \<Rightarrow> PNaN | Some x \<Rightarrow> PFloat x"
  show ?thesis
  proof (cases U)
    case (IntSeries b)
    have yb: "small y" if "y \<in> set b" for y
      using eu that by (auto simp: IntSeries list_all_iff)
    have "list_all2 (same_key rd)
            (map (\<lambda>(x, y). if x = PNaN then PInt y else x) (zip a b))
            (map preferred (zip (map id a) (map PInt b)))"
    proof (intro list_all2_zip_maps)
      fix x y assume "x \<in> set a" "y \<in> set b"
      with xa[of x] yb[of y] show "same_key rd
          (case (x, y) of (x, y) \<Rightarrow> if x = PNaN then PInt y else x) (preferred (id x, PInt y))"
        by (simp add: same_key_def preferred_def)
    qed
    then show ?thesis
      by (simp add: ObjectSeries IntSeries)
  next
    case (UIntSeries b)
    have yb: "small y" if "y \<in> set b" for y
      using eu that by (auto simp: UIntSeries list_all_iff)
    have "list_all2 (same_key rd)
            (map (\<lambda>(x, y). if x = PNaN then PInt y else x) (zip a b))
            (map preferred (zip (map id a) (map PInt b)))"
    proof (intro list_all2_zip_maps)
      fix x y assume "x \<in> set a" "y \<in> set b"
      with xa[of x] yb[of y] show "same_key rd
          (case (x, y) of (x, y) \<Rightarrow> if x = PNaN then PInt y else x) (preferred (id x, PInt y))"
        by (simp add: same_key_def preferred_def)
    qed
    then show ?thesis
      by (simp add: ObjectSeries UIntSeries)
  next
    case (FloatSeries b)
    have yb: "exact_key rd (?c y)" if "y \<in> set b" for y
      using eu that by (simp add: FloatSeries list_all_iff)
    have "list_all2 (same_key rd)
            (map (\<lambda>(x, y). if x = PNaN then ?c y else x) (zip a b))
            (map preferred (zip (map id a) (map ?c b)))"
    proof (intro list_all2_zip_maps)
      fix x y assume "x \<in> set a" "y \<in> set b"
      with xa[of x] yb[of y] show "same_key rd
          (case (x, y) of (x, y) \<Rightarrow> if x = PNaN then ?c y else x) (preferred (id x, ?c y))"
        by (simp add: same_key_def preferred_def)
    qed
    then show ?thesis
      by (simp add: ObjectSeries FloatSeries)
  next
    case (ObjectSeries b)
    have yb: "exact_key rd y" if "y \<in> set b" for y
      using eu that by (simp add: ObjectSeries list_all_iff)
    have "list_all2 (same_key rd)
            (map (\<lambda>(x, y). if x = PNaN then y else x) (zip a b))
            (map preferred (zip (map id a) (map id b)))"
    proof (intro list_all2_zip_maps)
      fix x y assume "x \<in> set a" "y \<in> set b"
      with xa[of x] yb[of y] show "same_key rd
          (case (x, y) of (x, y) \<Rightarrow> if x = PNaN then y else x) (preferred (id x, id y))"
        by (simp add: same_key_def preferred_def)
    qed
    then show ?thesis
      by (simp add: \<open>A = ObjectSeries a\<close> ObjectSeries)
  qed
qed


lemma usage_keys_exact:
  assumes "exact_keys rd df"
  defines "filled \<equiv> cells (fillna_series (acceptedUsageKey df) (usageKey df))"
  shows "usage_keys rd df =
           Inr (unique (map (\<lambda>v. the (key_of rd v)) (filter (reads_numeric rd) filled)))"
    and "list_all2 (same_key rd) filled
           (map preferred (zip (cells (acceptedUsageKey df)) (cells (usageKey df))))"
proof -
  from assms(1) have len: "length (cells (acceptedUsageKey df)) = length (cells (usageKey df))"
    and ea: "list_all (exact_key rd) (cells (acceptedUsageKey df))"
    and eu: "list_all (exact_key rd) (cells (usageKey df))"
    by (simp_all add: exact_keys_def)
  show same: "list_all2 (same_key rd) filled
      (map preferred (zip (cells (acceptedUsageKey df)) (cells (usageKey df))))"
    unfolding filled_def by (rule fillna_same_key[OF len ea eu])
  then have ex: "list_all (exact_key rd) filled"
    by (auto simp: list_all_iff list_all2_conv_all_nth in_set_conv_nth same_key_def)
  let ?key_to_use = "fillna_series (acceptedUsageKey df) (usageKey df)"
  let ?kept = "select_rows (notnull_numeric rd ?key_to_use) ?key_to_use"
  have k: "cells ?kept = filter (reads_numeric rd) filled"
    by (simp add: kept_cells filled_def)
  have "astype_int rd ?kept = Inr (map (\<lambda>v. the (key_of rd v)) (cells ?kept))"
    using ex by (intro astype_int_exact) (auto simp: k list_all_iff)
  then show "usage_keys rd df =
      Inr (unique (map (\<lambda>v. the (key_of rd v)) (filter (reads_numeric rd) filled)))"
    by (simp add: usage_keys_def Let_def k)
qed

lemma keys_of_same:
  assumes "list_all2 (same_key rd) vs ws"
  shows "(\<lambda>v. the (key_of rd v)) ` {v \<in> set vs. reads_numeric rd v} =
         {k. \<exists>w \<in> set ws. key_of rd w = Some k}"
  using assms
proof (induction rule: list_all2_induct)
  case Nil
  then show ?case by simp
next
  case (Cons v vs w ws)
  from Cons.hyps(1) have kv: "key_of rd v = key_of rd w" and ev: "exact_key rd v"
    by (simp_all add: same_key_def)
  have h: "(\<lambda>v. the (key_of rd v)) ` {u. u = v \<and> reads_numeric rd u} =
           {k. key_of rd w = Some k}"
    using exact_numeric_key[OF ev] kv by auto
  have "{u \<in> set (v # vs). reads_numeric rd u} =
          {u. u = v \<and> reads_numeric rd u} \<union> {u \<in> set vs. reads_numeric rd u}"
    by auto
  moreover have "{k. \<exists>u \<in> set (w # ws). key_of rd u = Some k} =
          {k. key_of rd w = Some k} \<union> {k. \<exists>u \<in> set ws. key_of rd u = Some k}"
    by auto
  ultimately show ?case
    by (simp only: image_Un h Cons.IH)
qed

text \<open>
  Claim C8, amended. For a species list whose keys are whole numbers below \<open>2^53\<close>
  in magnitude (held as int64, as float64 or as the text of an integer literal),
  missing values or texts that are not numeric, the derivation returns the keys that
  the preferred key of each row stands for, the fallback where the preferred key is
  null, leaves out the rows whose key is missing or not numeric, and lists every key
  once. The species list of the scenario gives 10 and 99.
\<close>

theorem taxon_keys_preferred_then_fallback:
  assumes "exact_keys rd df"
  shows "\<exists>ks. usage_keys rd df = Inr ks \<and> distinct ks \<and>
           set ks = {k. \<exists>au \<in> set (zip (cells (acceptedUsageKey df)) (cells (usageKey df))).
                          key_of rd (preferred au) = Some k} \<and>
           usage_keys rd scenario_list = Inr [10, 99]"
proof -
  let ?filled = "cells (fillna_series (acceptedUsageKey df) (usageKey df))"
  let ?ks = "unique (map (\<lambda>v. the (key_of rd v)) (filter (reads_numeric rd) ?filled))"
  have u: "usage_keys rd df = Inr ?ks"
    by (rule usage_keys_exact(1)[OF assms])
  have "set ?ks = (\<lambda>v. the (key_of rd v)) ` {v \<in> set ?filled. reads_numeric rd v}"
    by (simp add: set_unique)
  also have "\<dots> = {k. \<exists>w \<in> set (map preferred
        (zip (cells (acceptedUsageKey df)) (cells (usageKey df)))). key_of rd w = Some k}"
    by (rule keys_of_same[OF usage_keys_exact(2)[OF assms]])
  finally have s: "set ?ks =
      {k. \<exists>au \<in> set (zip (cells (acceptedUsageKey df)) (cells (usageKey df))).
             key_of rd (preferred au) = Some k}"
    by simp
  have f: "float_of_int64 10 = 10"
    using float_of_int64_small[of 10] by (simp add: small_def)
  have sc: "usage_keys rd scenario_list = Inr [10, 99]"
    by (simp add: usage_keys_def scenario_list_def apply_mask_def int_of_float64_def f
          in_int64_def py_trunc_def unique_def Let_def)
  from u s sc show ?thesis
    by (simp add: distinct_unique)
qed

theorem taxon_keys_preferred_then_fallback_witness:
  "exact_keys example_readers species_list \<and>
   usage_keys example_readers species_list = Inr [10, 99] \<and>
   {k. \<exists>au \<in> set (zip (cells (acceptedUsageKey species_list)) (cells (usageKey species_list))).
          key_of example_readers (preferred au) = Some k} = {10, 99}"
proof -
  have e: "exact_keys example_readers species_list"
    by (simp add: exact_keys_def species_list_def example_readers_def small_def py_trunc_def)
  have k: "usage_keys example_readers species_list = Inr [10, 99]"
    by (simp add: usage_keys_def species_list_def example_readers_def apply_mask_def
          fit_int64_def in_int64_def py_trunc_def unique_def Let_def)
  from taxon_keys_preferred_then_fallback[OF e] e k
  show ?thesis by auto
qed

text \<open>
  As the claim is stated, for every species list, it fails: a fallback key above
  \<open>2^53\<close> comes out rounded, because it passes through the float64 column of the
  accepted keys; a numeric key written as \<open>99.0\<close> in a column of texts makes
  \<open>astype(int)\<close> raise ValueError, so that no key is returned at all; and a key of
  \<open>2^63\<close> wraps around to \<open>-2^63\<close>.
\<close>

theorem taxon_keys_counterexample:
  "usage_keys example_readers large_key_list = Inr [9007199254740992] \<and>
   map (key_of example_readers \<circ> preferred)
     (zip (cells (acceptedUsageKey large_key_list)) (cells (usageKey large_key_list))) =
     [Some 9007199254740993] \<and>
   usage_keys example_readers decimal_key_list = Inl (ValueError ''99.0'') \<and>
   map (reads_numeric example_readers \<circ> preferred)
     (zip (cells (acceptedUsageKey decimal_key_list)) (cells (usageKey decimal_key_list))) =
     [False, True] \<and>
   usage_keys example_readers huge_key_list = Inr [- 9223372036854775808] \<and>
   map (key_of example_readers \<circ> preferred)
     (zip (cells (acceptedUsageKey huge_key_list)) (cells (usageKey huge_key_list))) =
     [Some 9223372036854775808]"
proof (intro conjI)
  show "usage_keys example_readers huge_key_list = Inr [- 9223372036854775808]"
    by code_simp
  show "map (key_of example_readers \<circ> preferred)
     (zip (cells (acceptedUsageKey huge_key_list)) (cells (usageKey huge_key_list))) =
     [Some 9223372036854775808]"
    by (simp add: huge_key_list_def preferred_def)
  show "usage_keys example_readers large_key_list = Inr [9007199254740992]"
    by code_simp
  show "map (key_of example_readers \<circ> preferred)
     (zip (cells (acceptedUsageKey large_key_list)) (cells (usageKey large_key_list))) =
     [Some 9007199254740993]"
    by (simp add: large_key_list_def preferred_def)
  show "usage_keys example_readers decimal_key_list = Inl (ValueError ''99.0'')"
    by code_simp
  show "map (reads_numeric example_readers \<circ> preferred)
     (zip (cells (acceptedUsageKey decimal_key_list)) (cells (usageKey decimal_key_list))) =
     [False, True]"
    by (simp add: decimal_key_list_def preferred_def example_readers_def)
qed

section \<open>Properties of the spatial join\<close>

lemma length_matches:
  "length (matches within_p pt polygons) = length (filter (\<lambda>(s, g). within_p pt g) polygons)"
proof -
  have "length (filter (\<lambda>(j, (s, g)). within_p pt g) (enumerate n polygons)) =
        length (filter (\<lambda>(s, g). within_p pt g) polygons)" for n
    by (induction polygons arbitrary: n) (auto split: prod.splits)
  then show ?thesis
    by (simp add: matches_def)
qed

lemma join_point_index: "r \<in> set (join_point within_p polygons (i, a, pt)) \<Longrightarrow> fst r = i"
  by (auto simp: join_point_def split: list.splits)

lemma rows_of_join_point:
  "rows_of i (join_point within_p polygons (n, a, pt)) =
     (if i = n then join_point within_p polygons (n, a, pt) else [])"
proof (cases "i = n")
  case True
  then show ?thesis
    unfolding rows_of_def by (auto intro!: filter_True dest: join_point_index)
next
  case False
  then show ?thesis
    unfolding rows_of_def by (auto simp: filter_empty_conv dest: join_point_index)
qed

lemma rows_of_append: "rows_of i (xs @ ys) = rows_of i xs @ rows_of i ys"
  by (simp add: rows_of_def)

lemma rows_of_concat_enumerate:
  "rows_of i (concat (map (join_point within_p polygons) (enumerate n points))) =
     (if n \<le> i \<and> i < n + length points
      then join_point within_p polygons (i, points ! (i - n)) else [])"
proof (induction points arbitrary: n)
  case Nil
  show ?case by (auto simp: rows_of_def)
next
  case (Cons p ps)
  obtain a pt where p: "p = (a, pt)" by (cases p)
  have step: "rows_of i (concat (map (join_point within_p polygons) (enumerate n (p # ps)))) =
      (if i = n then join_point within_p polygons (n, a, pt) else []) @
      rows_of i (concat (map (join_point within_p polygons) (enumerate (Suc n) ps)))"
    by (simp add: rows_of_append rows_of_join_point p)
  show ?case
  proof (cases "i = n")
    case True
    have "rows_of i (concat (map (join_point within_p polygons) (enumerate (Suc n) ps))) = []"
      unfolding Cons.IH using True by simp
    with True show ?thesis
      unfolding step by (simp add: p)
  next
    case False
    show ?thesis
    proof (cases "n < i")
      case True
      then have "i - n = Suc (i - Suc n)" by simp
      with True \<open>i \<noteq> n\<close> show ?thesis
        unfolding step Cons.IH by auto
    next
      case False
      with \<open>i \<noteq> n\<close> show ?thesis
        unfolding step Cons.IH by auto
    qed
  qed
qed

lemma rows_of_sjoin_left:
  "i < length points \<Longrightarrow>
     rows_of i (sjoin_left within_p points polygons) = join_point within_p polygons (i, points ! i)"
  by (simp add: sjoin_left_def rows_of_concat_enumerate)

text \<open>
  Claim C7. In the left join under containment, the point at every position of the
  input has at least one row in the result; a point that no polygon contains has
  exactly one row, with null site attributes; a point that \<open>k\<close> polygons contain has
  exactly \<open>k\<close> rows, one per containing polygon.
\<close>

theorem left_join_cardinality:
  fixes within_p :: "'p \<Rightarrow> 'g \<Rightarrow> bool" and points :: "('a \<times> 'p) list"
    and polygons :: "('s \<times> 'g) list"
  assumes "i < length points" and "points ! i = (a, pt)"
  defines "k \<equiv> length (filter (\<lambda>(s, g). within_p pt g) polygons)"
  defines "out \<equiv> rows_of i (sjoin_left within_p points polygons)"
  shows "1 \<le> length out \<and>
         (k = 0 \<longrightarrow> out = [(i, a, None)]) \<and>
         (0 < k \<longrightarrow> length out = k \<and> map (\<lambda>r. snd (snd r)) out = map Some (matches within_p pt polygons))"
proof -
  have out: "out = join_point within_p polygons (i, a, pt)"
    using assms(1,2) by (simp add: out_def rows_of_sjoin_left)
  have k: "length (matches within_p pt polygons) = k"
    by (simp add: k_def length_matches)
  show ?thesis
  proof (cases "matches within_p pt polygons")
    case Nil
    with k out show ?thesis
      by (simp add: join_point_def)
  next
    case (Cons m ms)
    with k out show ?thesis
      by (auto simp: join_point_def o_def)
  qed
qed

theorem left_join_cardinality_witness:
  "length (rows_of 0 (sjoin_left in_box two_points two_boxes)) = 2 \<and>
   map (\<lambda>r. snd (snd r)) (rows_of 0 (sjoin_left in_box two_points two_boxes)) =
     [Some (0, ''GR1''), Some (1, ''GR2'')] \<and>
   rows_of 1 (sjoin_left in_box two_points two_boxes) = [(1, ''outside'', None)]"
proof -
  have m0: "matches in_box (2, 2) two_boxes = [(0, ''GR1''), (1, ''GR2'')]"
    by (simp add: matches_def two_boxes_def in_box_def enumerate_eq_zip upt_rec)
  have k0: "length (filter (\<lambda>(s, g). in_box (2, 2) g) two_boxes) = 2"
    by (simp add: two_boxes_def in_box_def)
  have k1: "length (filter (\<lambda>(s, g). in_box (9, 9) g) two_boxes) = 0"
    by (simp add: two_boxes_def in_box_def)
  have p0: "0 < length two_points" "two_points ! 0 = (''inside'', (2, 2))"
    by (simp_all add: two_points_def)
  have p1: "1 < length two_points" "two_points ! 1 = (''outside'', (9, 9))"
    by (simp_all add: two_points_def)
  from left_join_cardinality[OF p0, of in_box two_boxes]
       left_join_cardinality[OF p1, of in_box two_boxes] m0 k0 k1
  show ?thesis by simp
qed

section \<open>Properties of the metrics\<close>

lemma fold_min_Min: "fold min xs (x::int) = Min (set (x # xs))"
  by (rule Min.set_eq_fold[symmetric])

lemma fold_max_Max: "fold max xs (x::int) = Max (set (x # xs))"
  by (rule Max.set_eq_fold[symmetric])

lemma agg_min_None: "dropna col = [] \<Longrightarrow> agg_min col = None"
  by (simp add: agg_min_def)

lemma agg_max_None: "dropna col = [] \<Longrightarrow> agg_max col = None"
  by (simp add: agg_max_def)

lemma agg_min_Some: "dropna col \<noteq> [] \<Longrightarrow> agg_min col = Some (Min (set (dropna col)))"
  by (cases "dropna col") (simp_all add: agg_min_def fold_min_Min del: set_simps)

lemma agg_max_Some: "dropna col \<noteq> [] \<Longrightarrow> agg_max col = Some (Max (set (dropna col)))"
  by (cases "dropna col") (simp_all add: agg_max_def fold_max_Max del: set_simps)

lemma agg_nunique_card: "agg_nunique col = card (set (dropna col))"
  by (simp add: agg_nunique_def length_remdups_card_conv)

text \<open>A finite non-empty set of whole numbers has at most max - min + 1 elements.\<close>

lemma card_le_span:
  fixes S :: "int set"
  assumes "finite S" and "S \<noteq> {}"
  shows "int (card S) \<le> Max S - Min S + 1"
proof -
  have "S \<subseteq> {Min S..Max S}"
    using assms by auto
  then have "card S \<le> card {Min S..Max S}"
    by (rule card_mono[rotated]) simp
  moreover have "Min S \<le> Max S"
    using assms by simp
  ultimately show ?thesis
    by simp
qed

lemma card_one_Min_Max:
  fixes S :: "int set"
  assumes "finite S" and "S \<noteq> {}"
  shows "card S = 1 \<longleftrightarrow> Max S = Min S"
proof
  assume "card S = 1"
  then obtain y where "S = {y}"
    by (auto simp: card_1_singleton_iff)
  then show "Max S = Min S" by simp
next
  assume eq: "Max S = Min S"
  have "int (card S) \<le> 1"
    using card_le_span[OF assms] eq by simp
  moreover have "0 < card S"
    using assms by (simp add: card_gt_0_iff)
  ultimately show "card S = 1" by simp
qed

lemma year_agg_sound: "years_sound (year_agg grp)"
proof (cases "dropna (map j_year grp) = []")
  case True
  then show ?thesis
    by (simp add: years_sound_def year_agg_def agg_min_None agg_max_None agg_nunique_card)
next
  case False
  let ?S = "set (dropna (map j_year grp))"
  from False have ne: "?S \<noteq> {}" by simp
  have fin: "finite ?S" by simp
  have "Min ?S \<le> Max ?S" using ne fin by simp
  moreover have "0 < card ?S" using ne fin by (simp add: card_gt_0_iff)
  moreover note card_le_span[OF fin ne] card_one_Min_Max[OF fin ne]
  ultimately show ?thesis
    using False
    by (simp add: years_sound_def year_agg_def agg_min_Some agg_max_Some agg_nunique_card)
qed



lemma in_site_coded:
  "SITE_CODE_COL \<in> set (columns df) \<Longrightarrow>
     in_site df = filter (\<lambda>r. SITECODE r \<noteq> None) (rows df)"
  by (simp add: in_site_def)

lemma in_site_restricted:
  "SITE_CODE_COL \<in> set (columns df) \<Longrightarrow>
     in_site (df\<lparr>rows := filter (\<lambda>r. SITECODE r \<noteq> None) (rows df)\<rparr>) = in_site df"
  by (simp add: in_site_def)

lemma tables_ignore_rows:
  "sites_metrics (df\<lparr>rows := rs\<rparr>) x = sites_metrics df x"
  "ms_metrics (df\<lparr>rows := rs\<rparr>) x = ms_metrics df x"
  "species_metrics (df\<lparr>rows := rs\<rparr>) x = species_metrics df x"
  "sitetype_metrics (df\<lparr>rows := rs\<rparr>) x = sitetype_metrics df x"
  "sites_gaps (df\<lparr>rows := rs\<rparr>) x = sites_gaps df x"
  by (simp_all add: sites_metrics_def ms_metrics_def species_metrics_def sitetype_metrics_def
        sites_gaps_def has_year_def split: list.splits)

lemma basic_metrics_restricted:
  assumes "SITE_CODE_COL \<in> set (columns df)"
  shows "basic_metrics (df\<lparr>rows := filter (\<lambda>r. SITECODE r \<noteq> None) (rows df)\<rparr>) =
         basic_metrics df"
  unfolding basic_metrics_def tables_ignore_rows in_site_restricted[OF assms] ..

lemma advanced_metrics_restricted:
  assumes "SITE_CODE_COL \<in> set (columns df)"
  shows "advanced_metrics (df\<lparr>rows := filter (\<lambda>r. SITECODE r \<noteq> None) (rows df)\<rparr>) =
         advanced_metrics df"
  unfolding advanced_metrics_def tables_ignore_rows in_site_restricted[OF assms] ..

lemma basic_exit_nonempty:
  "in_site df \<noteq> [] \<Longrightarrow> basic_exit (basic_metrics df) \<noteq> SystemExit 0"
  by (simp add: basic_metrics_def Let_def split: sum.splits)

lemma advanced_exit_nonempty:
  "in_site df \<noteq> [] \<Longrightarrow> advanced_exit (advanced_metrics df) \<noteq> SystemExit 0"
  by (simp add: advanced_metrics_def Let_def split: sum.splits)

lemma sites_table_of:
  "in_site df \<noteq> [] \<Longrightarrow> sites_metrics_csv (basic_metrics df) = Some sm \<Longrightarrow>
     sm = map (site_metric_of (has_year df)) (groupby SITECODE (in_site df))"
  by (auto simp: basic_metrics_def Let_def sites_metrics_def split: sum.splits list.splits)

lemma species_table_of:
  "in_site df \<noteq> [] \<Longrightarrow> species_metrics_csv (advanced_metrics df) = Some sp \<Longrightarrow>
     sp = species_rows (has_year df) (in_site df)"
  by (auto simp: advanced_metrics_def Let_def species_metrics_def
           split: sum.splits list.splits if_splits)

lemmas metrics_eval =
  species_rows_def species_rows_divided_def force_row_def gap_rows_def groupby_def site_X_def
  taxon_5_def taxon_7_def extreme_site_def far_apart_def jrow_def
  species_metric_of_def general_division_def force_single_year_def site_gap_of_def
  year_agg_def agg_min_def agg_max_def agg_nunique_def agg_first_def agg_size_def span_of_def
  replace_zero_def expected_of_def missing_of_def fraction_of_def true_divide_def wrap64_def
  span_fits_def Let_def

lemma species_rows_nth:
  assumes "i < length (species_rows wy df)" and "sp_temporal (species_rows wy df ! i) = Some t"
  obtains grp where
    "sp_temporal (species_rows_divided wy df ! i) = Some (general_division (year_agg grp))"
    and "t = force_single_year (general_division (year_agg grp))"
proof -
  from assms(1) have i: "i < length (groupby j_taxonKey df)"
    by (simp add: species_rows_def species_rows_divided_def)
  obtain k grp where kg: "groupby j_taxonKey df ! i = (k, grp)"
    by (cases "groupby j_taxonKey df ! i")
  have d: "species_rows_divided wy df ! i = species_metric_of wy (k, grp)"
    using i kg by (simp add: species_rows_divided_def)
  have f: "species_rows wy df ! i = force_row (species_metric_of wy (k, grp))"
    using i kg by (simp add: species_rows_def species_rows_divided_def)
  from assms(2) have wy
    by (auto simp: f force_row_def species_metric_of_def split: if_splits)
  with assms(2) d f that[of grp] show ?thesis
    by (simp add: force_row_def species_metric_of_def)
qed




lemma general_division_fields:
  "year_min (general_division ys) = year_min ys"
  "year_max (general_division ys) = year_max ys"
  "n_years (general_division ys) = n_years ys"
  "temporal_span (general_division ys) = span_of (year_max ys) (year_min ys)"
  by (simp_all add: general_division_def Let_def)

lemma force_single_year_fields:
  "year_min (force_single_year t) = year_min t"
  "year_max (force_single_year t) = year_max t"
  "n_years (force_single_year t) = n_years t"
  "temporal_span (force_single_year t) = temporal_span t"
  by (simp_all add: force_single_year_def)

text \<open>
  Claim C9. Both metrics scripts work on the rows with a non-null site code only: what
  they write and how they end is the same for a table and for its rows with a site
  code, and the site table and the species table are the aggregations of exactly those
  rows. When no row carries a site code, or the table has no site code column, each
  script ends with exit status 0 and has written none of its tables; otherwise neither
  takes that exit.
\<close>

theorem metrics_on_site_coded_rows_only:
  fixes df :: frame
  defines "coded \<equiv> filter (\<lambda>r. SITECODE r \<noteq> None) (rows df)"
  shows "(SITE_CODE_COL \<in> set (columns df) \<longrightarrow>
            basic_metrics df = basic_metrics (df\<lparr>rows := coded\<rparr>) \<and>
            advanced_metrics df = advanced_metrics (df\<lparr>rows := coded\<rparr>)) \<and>
         (SITE_CODE_COL \<in> set (columns df) \<and> coded \<noteq> [] \<longrightarrow>
            basic_exit (basic_metrics df) \<noteq> SystemExit 0 \<and>
            advanced_exit (advanced_metrics df) \<noteq> SystemExit 0 \<and>
            (\<forall>sm. sites_metrics_csv (basic_metrics df) = Some sm \<longrightarrow>
                  sm = map (site_metric_of (has_year df)) (groupby SITECODE coded)) \<and>
            (\<forall>sp. species_metrics_csv (advanced_metrics df) = Some sp \<longrightarrow>
                  sp = species_rows (has_year df) coded)) \<and>
         (SITE_CODE_COL \<notin> set (columns df) \<or> coded = [] \<longrightarrow>
            basic_metrics df =
              \<lparr>sites_metrics_csv = None, ms_metrics_csv = None, basic_exit = SystemExit 0\<rparr> \<and>
            advanced_metrics df =
              \<lparr>species_metrics_csv = None, sitetype_metrics_csv = None,
               sites_gaps_csv = None, advanced_exit = SystemExit 0\<rparr> \<and>
            exit_status (basic_exit (basic_metrics df)) = 0 \<and>
            exit_status (advanced_exit (advanced_metrics df)) = 0)"
proof (intro conjI impI)
  assume c: "SITE_CODE_COL \<in> set (columns df)"
  show "basic_metrics df = basic_metrics (df\<lparr>rows := coded\<rparr>)"
    unfolding coded_def by (rule basic_metrics_restricted[OF c, symmetric])
  show "advanced_metrics df = advanced_metrics (df\<lparr>rows := coded\<rparr>)"
    unfolding coded_def by (rule advanced_metrics_restricted[OF c, symmetric])
next
  assume "SITE_CODE_COL \<in> set (columns df) \<and> coded \<noteq> []"
  then have eq: "in_site df = coded" and ne: "in_site df \<noteq> []"
    by (simp_all add: in_site_coded coded_def)
  show "basic_exit (basic_metrics df) \<noteq> SystemExit 0"
    by (rule basic_exit_nonempty[OF ne])
  show "advanced_exit (advanced_metrics df) \<noteq> SystemExit 0"
    by (rule advanced_exit_nonempty[OF ne])
  show "\<forall>sm. sites_metrics_csv (basic_metrics df) = Some sm \<longrightarrow>
          sm = map (site_metric_of (has_year df)) (groupby SITECODE coded)"
    using sites_table_of[OF ne] by (simp add: eq)
  show "\<forall>sp. species_metrics_csv (advanced_metrics df) = Some sp \<longrightarrow>
          sp = species_rows (has_year df) coded"
    using species_table_of[OF ne] by (simp add: eq)
next
  assume "SITE_CODE_COL \<notin> set (columns df) \<or> coded = []"
  then have e: "in_site df = []"
    by (auto simp: in_site_def coded_def)
  show "basic_metrics df =
      \<lparr>sites_metrics_csv = None, ms_metrics_csv = None, basic_exit = SystemExit 0\<rparr>"
    by (simp add: basic_metrics_def e)
  show "advanced_metrics df =
      \<lparr>species_metrics_csv = None, sitetype_metrics_csv = None,
       sites_gaps_csv = None, advanced_exit = SystemExit 0\<rparr>"
    by (simp add: advanced_metrics_def e)
  show "exit_status (basic_exit (basic_metrics df)) = 0"
    by (simp add: basic_metrics_def e)
  show "exit_status (advanced_exit (advanced_metrics df)) = 0"
    by (simp add: advanced_metrics_def e)
qed


theorem metrics_on_site_coded_rows_only_witness:
  "basic_exit (basic_metrics mixed) = Completed \<and>
   sites_metrics_csv (basic_metrics mixed) =
     Some (map (site_metric_of True) (groupby SITECODE site_X)) \<and>
   species_metrics_csv (advanced_metrics mixed) = Some (species_rows True site_X) \<and>
   exit_status (basic_exit (basic_metrics outside_only)) = 0 \<and>
   sites_metrics_csv (basic_metrics outside_only) = None \<and>
   ms_metrics_csv (basic_metrics outside_only) = None \<and>
   exit_status (advanced_exit (advanced_metrics outside_only)) = 0 \<and>
   species_metrics_csv (advanced_metrics outside_only) = None \<and>
   sitetype_metrics_csv (advanced_metrics outside_only) = None \<and>
   sites_gaps_csv (advanced_metrics outside_only) = None"
proof -
  have cols: "SITE_CODE_COL \<in> set (columns mixed)" "SITE_CODE_COL \<in> set (columns outside_only)"
    by (simp_all add: mixed_def outside_only_def all_columns_def)
  have coded: "filter (\<lambda>r. SITECODE r \<noteq> None) (rows mixed) = site_X"
    by (simp add: mixed_def site_X_def jrow_def)
  have none: "filter (\<lambda>r. SITECODE r \<noteq> None) (rows outside_only) = []"
    by (simp add: outside_only_def jrow_def)
  have ne: "site_X \<noteq> []"
    by (simp add: site_X_def)
  have y: "has_year mixed"
    by (simp add: has_year_def mixed_def all_columns_def)
  have e: "basic_exit (basic_metrics mixed) = Completed"
    by code_simp
  have b: "sites_metrics_csv (basic_metrics mixed) \<noteq> None"
    by code_simp
  have a: "species_metrics_csv (advanced_metrics mixed) \<noteq> None"
    by code_simp
  have m: "(\<forall>sm. sites_metrics_csv (basic_metrics mixed) = Some sm \<longrightarrow>
               sm = map (site_metric_of (has_year mixed)) (groupby SITECODE site_X)) \<and>
           (\<forall>sp. species_metrics_csv (advanced_metrics mixed) = Some sp \<longrightarrow>
               sp = species_rows (has_year mixed) site_X)"
    using metrics_on_site_coded_rows_only[of mixed] cols(1) ne unfolding coded by blast
  have o: "basic_metrics outside_only =
             \<lparr>sites_metrics_csv = None, ms_metrics_csv = None, basic_exit = SystemExit 0\<rparr> \<and>
           advanced_metrics outside_only =
             \<lparr>species_metrics_csv = None, sitetype_metrics_csv = None,
              sites_gaps_csv = None, advanced_exit = SystemExit 0\<rparr>"
    using metrics_on_site_coded_rows_only[of outside_only] unfolding none by blast
  from b obtain sm where sm: "sites_metrics_csv (basic_metrics mixed) = Some sm"
    by blast
  from a obtain sp where sp: "species_metrics_csv (advanced_metrics mixed) = Some sp"
    by blast
  from m sm sp y have
    "sites_metrics_csv (basic_metrics mixed) =
       Some (map (site_metric_of True) (groupby SITECODE site_X))"
    "species_metrics_csv (advanced_metrics mixed) = Some (species_rows True site_X)"
    by simp_all
  with e o show ?thesis
    by simp
qed

text \<open>
  Claim C5. A taxon with exactly one distinct year has a temporal span of 0 and a
  temporal completeness of exactly 1, and it is the assignment for single-year taxa
  that sets it: in the table after the general division the row holds a null, and the
  written row is that row after the assignment.
\<close>

theorem single_year_completeness_forced:
  assumes "i < length (species_rows with_year df_in_site)"
    and "sp_temporal (species_rows with_year df_in_site ! i) = Some t"
    and "n_years t = 1"
  shows "temporal_span t = Some 0 \<and> temporal_completeness t = Some (Finite 1) \<and>
         (\<exists>t0. sp_temporal (species_rows_divided with_year df_in_site ! i) = Some t0 \<and>
               temporal_completeness t0 = None \<and> t = force_single_year t0)"
proof -
  from assms(1,2) obtain grp where
    d: "sp_temporal (species_rows_divided with_year df_in_site ! i) =
          Some (general_division (year_agg grp))"
    and t: "t = force_single_year (general_division (year_agg grp))"
    by (rule species_rows_nth)
  let ?t0 = "general_division (year_agg grp)"
  have n: "n_years (year_agg grp) = 1"
    using assms(3) by (simp add: t force_single_year_fields general_division_fields)
  with year_agg_sound[of grp] obtain y where
    y: "year_min (year_agg grp) = Some y" "year_max (year_agg grp) = Some y"
    by (auto simp: years_sound_def)
  have span: "temporal_span ?t0 = Some 0"
    by (simp add: general_division_fields span_of_def y wrap64_def)
  have null: "temporal_completeness ?t0 = None"
    by (simp add: general_division_def Let_def span_of_def y wrap64_def replace_zero_def)
  have "temporal_span t = Some 0"
    by (simp add: t force_single_year_fields span)
  moreover have "temporal_completeness t = Some (Finite 1)"
    by (simp add: t force_single_year_def span)
  ultimately show ?thesis
    using d null t by blast
qed

theorem single_year_completeness_forced_witness:
  "length (species_rows True site_X) = 2 \<and>
   sp_temporal (species_rows True site_X ! 1) =
     Some (force_single_year (general_division (year_agg taxon_7))) \<and>
   sp_temporal (species_rows_divided True site_X ! 1) = Some (general_division (year_agg taxon_7)) \<and>
   n_years (force_single_year (general_division (year_agg taxon_7))) = 1 \<and>
   temporal_completeness (general_division (year_agg taxon_7)) = None \<and>
   temporal_span (force_single_year (general_division (year_agg taxon_7))) = Some 0 \<and>
   temporal_completeness (force_single_year (general_division (year_agg taxon_7))) =
     Some (Finite 1)"
proof -
  have g: "groupby j_taxonKey site_X = [(5, taxon_5), (7, taxon_7)]"
    by (simp add: groupby_def site_X_def taxon_5_def taxon_7_def jrow_def)
  have l: "1 < length (species_rows True site_X)" "length (species_rows True site_X) = 2"
    by (simp_all add: species_rows_def species_rows_divided_def g)
  have r: "sp_temporal (species_rows True site_X ! 1) =
             Some (force_single_year (general_division (year_agg taxon_7)))"
    by (simp add: species_rows_def species_rows_divided_def g force_row_def species_metric_of_def)
  have d: "sp_temporal (species_rows_divided True site_X ! 1) =
             Some (general_division (year_agg taxon_7))"
    by (simp add: species_rows_divided_def g species_metric_of_def)
  have n: "n_years (force_single_year (general_division (year_agg taxon_7))) = 1"
    by (simp add: metrics_eval)
  from single_year_completeness_forced[OF l(1) r n] l r d n
  show ?thesis by (auto simp: force_single_year_def)
qed







end
